theory Spec2Isabelle
  imports Main "HOL-Library.AList"
begin

section \<open>Strings (packages strings, unicode and utf8)\<close>

text \<open>
  A Go string is a byte sequence; it is modelled as \<open>string\<close>, a byte being a \<open>char\<close>.

  \<open>strings.ToLower\<close> has two paths. When every byte is below \<open>0x80\<close> it adds
  \<open>'a' - 'A'\<close> to the bytes \<open>A\<close>..\<open>Z\<close> and leaves the others alone
  (\<open>lower_byte\<close>). Otherwise it returns \<open>Map(unicode.ToLower, s)\<close>: the string is
  read rune by rune as a \<open>range\<close> loop reads it, every rune is lower-cased, and the
  results are written in UTF-8; a byte that starts no valid encoding is read as
  \<open>RuneError\<close> of width one.
\<close>

definition lower_byte :: "char \<Rightarrow> char" where
  "lower_byte c =
     (case map_of (zip ''ABCDEFGHIJKLMNOPQRSTUVWXYZ'' ''abcdefghijklmnopqrstuvwxyz'') c of
        Some l \<Rightarrow> l
      | None \<Rightarrow> c)"

text \<open>A byte below \<open>utf8.RuneSelf\<close>: its top bit is clear.\<close>

definition is_ascii :: "char \<Rightarrow> bool" where
  "is_ascii c = (\<not> digit7 c)"

text \<open>
  Package utf8, on byte values and code points as natural numbers.
  \<open>DecodeRune\<close> is \<open>utf8.DecodeRuneInString\<close>: it returns the rune and its width.
  The table \<open>first\<close> and the accept ranges of the package are written out: a lead
  byte \<open>C2\<close>..\<open>DF\<close> takes one continuation byte, \<open>E0\<close>..\<open>EF\<close> two, \<open>F0\<close>..\<open>F4\<close>
  three; the second byte is restricted after \<open>E0\<close>, \<open>ED\<close>, \<open>F0\<close> and \<open>F4\<close>; every
  other lead byte, a missing byte and a byte out of range give \<open>RuneError\<close> and width 1.
\<close>

definition RuneError :: nat where
  "RuneError = 0xFFFD"

definition continuation :: "nat \<Rightarrow> bool" where
  "continuation b = (0x80 \<le> b \<and> b \<le> 0xBF)"

fun DecodeRune :: "nat list \<Rightarrow> nat \<times> nat" where
  "DecodeRune [] = (RuneError, 0)"
| "DecodeRune (s0 # rest) =
     (if s0 < 0x80 then (s0, 1)
      else if 0xC2 \<le> s0 \<and> s0 \<le> 0xDF then
        (case rest of
           s1 # _ \<Rightarrow>
             if continuation s1 then ((s0 mod 0x20) * 0x40 + s1 mod 0x40, 2)
             else (RuneError, 1)
         | _ \<Rightarrow> (RuneError, 1))
      else if 0xE0 \<le> s0 \<and> s0 \<le> 0xEF then
        (case rest of
           s1 # s2 # _ \<Rightarrow>
             if (if s0 = 0xE0 then 0xA0 else 0x80) \<le> s1
                \<and> s1 \<le> (if s0 = 0xED then 0x9F else 0xBF)
                \<and> continuation s2
             then ((s0 mod 0x10) * 0x1000 + (s1 mod 0x40) * 0x40 + s2 mod 0x40, 3)
             else (RuneError, 1)
         | _ \<Rightarrow> (RuneError, 1))
      else if 0xF0 \<le> s0 \<and> s0 \<le> 0xF4 then
        (case rest of
           s1 # s2 # s3 # _ \<Rightarrow>
             if (if s0 = 0xF0 then 0x90 else 0x80) \<le> s1
                \<and> s1 \<le> (if s0 = 0xF4 then 0x8F else 0xBF)
                \<and> continuation s2 \<and> continuation s3
             then ((s0 mod 0x08) * 0x40000 + (s1 mod 0x40) * 0x1000 + (s2 mod 0x40) * 0x40
                     + s3 mod 0x40, 4)
             else (RuneError, 1)
         | _ \<Rightarrow> (RuneError, 1))
      else (RuneError, 1))"

declare DecodeRune.simps(2) [simp del]

text \<open>The runes a \<open>range\<close> loop over the string yields, in order.\<close>

fun runes :: "nat list \<Rightarrow> nat list" where
  "runes [] = []"
| "runes (s0 # rest) =
     fst (DecodeRune (s0 # rest)) # runes (drop (snd (DecodeRune (s0 # rest)) - 1) rest)"

text \<open>
  \<open>utf8.AppendRune\<close>, which \<open>Builder.WriteRune\<close> calls: one to four bytes; a
  surrogate or a value beyond \<open>0x10FFFF\<close> is written as \<open>RuneError\<close>.
\<close>

definition EncodeRune :: "nat \<Rightarrow> nat list" where
  "EncodeRune r =
     (if r \<le> 0x7F then [r]
      else if r \<le> 0x7FF then [0xC0 + r div 0x40, 0x80 + r mod 0x40]
      else if (r < 0xD800 \<or> 0xDFFF < r) \<and> r \<le> 0xFFFF then
        [0xE0 + r div 0x1000, 0x80 + (r div 0x40) mod 0x40, 0x80 + r mod 0x40]
      else if 0xFFFF < r \<and> r \<le> 0x10FFFF then
        [0xF0 + r div 0x40000, 0x80 + (r div 0x1000) mod 0x40, 0x80 + (r div 0x40) mod 0x40,
         0x80 + r mod 0x40]
      else [0xEF, 0xBF, 0xBD])"

text \<open>
  \<open>strings.Map\<close> for a mapping that never returns a negative rune (\<open>unicode.ToLower\<close>
  does not): the encodings of the mapped runes, one after the other.
\<close>

definition Map :: "(nat \<Rightarrow> nat) \<Rightarrow> string \<Rightarrow> string" where
  "Map mapping s =
     map char_of (concat (map (\<lambda>c. EncodeRune (mapping c)) (runes (map of_char s))))"

text \<open>
  \<open>unicode.ToLower\<close>: up to \<open>MaxASCII\<close> the letters \<open>A\<close>..\<open>Z\<close> move by \<open>0x20\<close>;
  beyond, the rune is looked up in the case tables of the Unicode data, which are the
  parameter \<open>caseTable\<close>.
\<close>

definition unicode_ToLower :: "(nat \<Rightarrow> nat) \<Rightarrow> nat \<Rightarrow> nat" where
  "unicode_ToLower caseTable r =
     (if r \<le> 0x7F then (if 0x41 \<le> r \<and> r \<le> 0x5A then r + 0x20 else r) else caseTable r)"

definition ToLower :: "(nat \<Rightarrow> nat) \<Rightarrow> string \<Rightarrow> string" where
  "ToLower caseTable s =
     (if list_all is_ascii s then map lower_byte s else Map (unicode_ToLower caseTable) s)"

fun HasPrefix :: "string \<Rightarrow> string \<Rightarrow> bool" where
  "HasPrefix s [] = True"
| "HasPrefix [] (p # ps) = False"
| "HasPrefix (c # cs) (p # ps) = (c = p \<and> HasPrefix cs ps)"

definition TrimPrefix :: "string \<Rightarrow> string \<Rightarrow> string" where
  "TrimPrefix s p = (if HasPrefix s p then drop (length p) s else s)"

fun Contains :: "string \<Rightarrow> string \<Rightarrow> bool" where
  "Contains [] sub = (sub = [])"
| "Contains (c # cs) sub = (HasPrefix (c # cs) sub \<or> Contains cs sub)"

section \<open>JSON values and Go slices\<close>

text \<open>
  What \<open>json.Unmarshal\<close> stores in an \<open>interface{}\<close>: \<open>nil\<close>, \<open>bool\<close>, \<open>float64\<close>,
  \<open>string\<close>, \<open>[]interface{}\<close> or \<open>map[string]interface{}\<close>. The dispatcher never looks
  at a number, so a number is kept as its literal. A JSON object is an association list
  read through \<open>map_of\<close>.
\<close>

datatype json =
    JNull
  | JBool bool
  | JNumber string
  | JString string
  | JArray "json list"
  | JObject "(string \<times> json) list"

text \<open>A \<open>map[string]interface{}\<close> that may be the nil map (\<open>None\<close>).\<close>

type_synonym gomap = "(string \<times> json) list option"

text \<open>
  A Go slice is either \<open>nil\<close> or holds elements; \<open>append\<close> to the nil slice allocates.
  The difference shows when the slice is marshalled.
\<close>

datatype 'a slice = NilSlice | Slice "'a list"

fun append_slice :: "'a slice \<Rightarrow> 'a \<Rightarrow> 'a slice" where
  "append_slice NilSlice x = Slice [x]"
| "append_slice (Slice xs) x = Slice (xs @ [x])"

fun elems :: "'a slice \<Rightarrow> 'a list" where
  "elems NilSlice = []"
| "elems (Slice xs) = xs"

text \<open>
  \<open>json.Marshal\<close> of a \<open>[]string\<close>: a nil slice encodes as the JSON value \<open>null\<close>, any
  other slice as an array of strings. The encoded bytes are represented by the JSON
  value they denote.
\<close>

fun Marshal_strings :: "string slice \<Rightarrow> json" where
  "Marshal_strings NilSlice = JNull"
| "Marshal_strings (Slice xs) = JArray (map JString xs)"

section \<open>Package mcp: the RPC envelope\<close>

definition JSONRPCVersion :: string where
  "JSONRPCVersion = ''2.0''"

record RPCError =
  Code :: int
  Message :: string

record RPCResponse =
  Version :: string
  Result :: "json option"
  Error :: "RPCError option"
  ID :: "int option"

definition NewError :: "int \<Rightarrow> string \<Rightarrow> RPCError" where
  "NewError code msg = \<lparr>Code = code, Message = msg\<rparr>"

record ToolCallArgs =
  ToolName :: string
  Parameters :: gomap

section \<open>Package server: the registry\<close>

text \<open>
  A handler is foreign code, called as \<open>tool.Handler(ctx, s, parameters)\<close>. It acts on
  the world outside the dispatcher (type \<open>'w\<close>) and, through the \<open>Registry\<close> it is
  handed, on the tool map of the server. The interface offers \<open>RegisterTool\<close> and
  nothing else, so what a handler does to the registry is the sequence of
  \<open>RegisterTool\<close> calls it makes. \<open>invoke h parameters w\<close> returns the text of the
  handler's error (\<open>None\<close> for a nil error), the world it leaves, and the arguments of
  those calls in order. The context only carries the 30 second deadline and is left out.
\<close>

datatype 'w ToolHandler =
  ToolHandler
    (invoke: "gomap \<Rightarrow> 'w \<Rightarrow>
                string option \<times> 'w \<times> (string \<times> string \<times> gomap \<times> 'w ToolHandler) list")

record 'w RegisteredTool =
  Name :: string
  Description :: string
  InputSchema :: gomap
  Handler :: "'w ToolHandler"
  ServiceName :: string

text \<open>
  The two Go maps of \<open>Server\<close> are association lists read through \<open>map_of\<close> and
  written with \<open>AList.update\<close>, which overwrites the entry of a key already present.
  \<open>services\<close> keeps, for each key, the name the stored service reports. The order of
  the lists stands for the order in which a \<open>range\<close> loop visits the map, which Go
  leaves unspecified.
\<close>

record 'w Server =
  tools :: "(string \<times> 'w RegisteredTool) list"
  services :: "(string \<times> string) list"

definition emptyServer :: "'w Server" where
  "emptyServer = \<lparr>tools = [], services = []\<rparr>"

definition RegisterTool ::
  "string \<Rightarrow> string \<Rightarrow> gomap \<Rightarrow> 'w ToolHandler \<Rightarrow> 'w Server \<Rightarrow> 'w Server" where
  "RegisterTool name description inputSchema handler s =
     s\<lparr>tools := AList.update name
          \<lparr>Name = name, Description = description, InputSchema = inputSchema,
           Handler = handler, ServiceName = []\<rparr> (tools s)\<rparr>"

text \<open>
  \<open>register_all regs s\<close> is the registry after the calls
  \<open>RegisterTool name description inputSchema handler\<close> for the entries of \<open>regs\<close>, in
  order. Nothing but \<open>RegisterTool\<close> writes the tool map.
\<close>

definition register_all ::
  "(string \<times> string \<times> gomap \<times> 'w ToolHandler) list \<Rightarrow> 'w Server \<Rightarrow> 'w Server" where
  "register_all regs s = fold (\<lambda>(n, d, sc, h). RegisterTool n d sc h) regs s"

text \<open>
  The call \<open>tool.Handler(ctx, s, parameters)\<close> on the server \<open>s\<close>: the error, the
  server with the handler's registrations applied, and the world.
\<close>

definition call_handler ::
  "'w ToolHandler \<Rightarrow> gomap \<Rightarrow> 'w Server \<Rightarrow> 'w \<Rightarrow> string option \<times> 'w Server \<times> 'w" where
  "call_handler handler parameters s w =
     (case invoke handler parameters w of
        (err, w', regs) \<Rightarrow> (err, register_all regs s, w'))"

text \<open>
  \<open>RegisterService\<close>: the service is given by its name and by what its
  \<open>RegisterTools\<close> callback does to the server.
\<close>

definition RegisterService ::
  "string \<Rightarrow> ('w Server \<Rightarrow> 'w Server) \<Rightarrow> 'w Server \<Rightarrow> 'w Server" where
  "RegisterService serviceName registerTools s =
     registerTools (s\<lparr>services := AList.update serviceName serviceName (services s)\<rparr>)"

definition describe_tool :: "'w RegisteredTool \<Rightarrow> string" where
  "describe_tool tool = Name tool @ '': '' @ Description tool"

definition listTools :: "'w Server \<Rightarrow> string slice" where
  "listTools s =
     fold (\<lambda>(k, tool) toolList. append_slice toolList (describe_tool tool)) (tools s) NilSlice"

definition listServices :: "'w Server \<Rightarrow> string slice" where
  "listServices s =
     fold (\<lambda>(k, svc) serviceList. append_slice serviceList svc) (services s) NilSlice"

definition listToolsForService :: "(nat \<Rightarrow> nat) \<Rightarrow> 'w Server \<Rightarrow> string \<Rightarrow> string slice" where
  "listToolsForService caseTable s serviceName =
     fold (\<lambda>(k, tool) toolList.
             if ToLower caseTable (ServiceName tool) = ToLower caseTable serviceName
             then append_slice toolList (describe_tool tool) else toolList)
          (tools s) NilSlice"

section \<open>Package utils\<close>

definition ExtractServiceName :: "string \<Rightarrow> string \<times> bool" where
  "ExtractServiceName input =
     (if Contains input ''docker'' then (''docker'', True)
      else if Contains input ''git'' then (''git'', True)
      else ([], False))"

text \<open>
  The package variable \<open>systemPromptOverride\<close> is passed in and out explicitly.
  \<open>universal\<close> is the literal returned by \<open>getUniversalSystemPrompt\<close>; its wording
  plays no part in dispatching, so it stays a parameter.
\<close>

definition GetSystemPrompt :: "string \<Rightarrow> string \<Rightarrow> string" where
  "GetSystemPrompt universal systemPromptOverride =
     (if systemPromptOverride \<noteq> [] then systemPromptOverride else universal)"

definition IsListServicesQuery :: "(nat \<Rightarrow> nat) \<Rightarrow> string \<Rightarrow> bool" where
  "IsListServicesQuery caseTable query =
     (let lower = ToLower caseTable query in
      Contains lower ''service'' \<and>
      (Contains lower ''list'' \<or> Contains lower ''available'' \<or> Contains lower ''what are''))"

definition IsListToolsQuery :: "(nat \<Rightarrow> nat) \<Rightarrow> string \<Rightarrow> bool" where
  "IsListToolsQuery caseTable query =
     (let lower = ToLower caseTable query in
      Contains lower ''tool'' \<and>
      (Contains lower ''list'' \<or> Contains lower ''available'' \<or> Contains lower ''what are''))"

section \<open>Package server: the dispatcher\<close>

text \<open>
  \<open>json.Unmarshal\<close> into an \<open>interface{}\<close> belongs to the Go library; the dispatcher
  takes it as the parameter \<open>unmarshal\<close>, which returns the decoded value or the text
  of the decoding error. Decoding into a \<open>map[string]interface{}\<close> accepts an object,
  leaves the map nil on \<open>null\<close>, and rejects every other value.
\<close>

type_synonym Unmarshal = "string \<Rightarrow> string + json"

definition Unmarshal_map :: "Unmarshal \<Rightarrow> string \<Rightarrow> string + gomap" where
  "Unmarshal_map unmarshal text =
     (case unmarshal text of
        Inl err \<Rightarrow> Inl err
      | Inr (JObject m) \<Rightarrow> Inr (Some m)
      | Inr JNull \<Rightarrow> Inr None
      | Inr _ \<Rightarrow> Inl ''json: cannot unmarshal into Go value of type map[string]interface {}'')"

text \<open>
  \<open>json.Marshal\<close> of the two-entry \<open>map[string]string\<close> built on success; the
  encoder writes the keys in sorted order and cannot fail on string values.
\<close>

definition Marshal_status :: "string \<Rightarrow> json" where
  "Marshal_status message =
     JObject [(''message'', JString message), (''status'', JString ''success'')]"

definition errorResponse :: "int \<Rightarrow> string \<Rightarrow> RPCResponse" where
  "errorResponse code msg =
     \<lparr>Version = JSONRPCVersion, Result = None, Error = Some (NewError code msg), ID = None\<rparr>"

definition resultResponse :: "json \<Rightarrow> RPCResponse" where
  "resultResponse res =
     \<lparr>Version = JSONRPCVersion, Result = Some res, Error = None, ID = None\<rparr>"

text \<open>
  The language model client (\<open>llm.GenerateContent\<close>) is foreign as well: given the
  human text, the system text and the tool descriptors it acts on the world and returns
  an error text or the list of choices.
\<close>

record FunctionCall =
  FunctionName :: string
  Arguments :: string

record Choice =
  Content :: string
  ToolCalls :: "FunctionCall option list"

type_synonym 'w LLM =
  "string \<Rightarrow> string \<Rightarrow> (string \<times> string \<times> gomap) list \<Rightarrow> 'w \<Rightarrow> (string + Choice list) \<times> 'w"

definition invokeTool ::
  "Unmarshal \<Rightarrow> 'w Server \<Rightarrow> FunctionCall \<Rightarrow> 'w \<Rightarrow> (string + string) \<times> 'w Server \<times> 'w" where
  "invokeTool unmarshal s functionCall w =
     (case map_of (tools s) (FunctionName functionCall) of
        None \<Rightarrow> (Inl (''Tool '' @ FunctionName functionCall @ '' not found''), s, w)
      | Some tool \<Rightarrow>
          (case Unmarshal_map unmarshal (Arguments functionCall) of
             Inl err \<Rightarrow>
               (Inl (''invalid arguments for tool '' @ FunctionName functionCall @ '': '' @ err),
                s, w)
           | Inr params \<Rightarrow>
               (case call_handler (Handler tool) params s w of
                  (Some err, s', w') \<Rightarrow>
                    (Inl (''error executing tool '' @ FunctionName functionCall @ '': '' @ err),
                     s', w')
                | (None, s', w') \<Rightarrow>
                    (Inr (''Tool '' @ FunctionName functionCall @ '' executed successfully''),
                     s', w'))))"

text \<open>
  The loop of \<open>CallLLM\<close> over the tool calls: the first call that succeeds gives the
  reply; a failing call is logged and the loop goes on. The second component is what
  was written to \<open>*reply\<close>, \<open>None\<close> when nothing was.
\<close>

fun tool_calls_loop ::
  "Unmarshal \<Rightarrow> 'w Server \<Rightarrow> FunctionCall option list \<Rightarrow> 'w
     \<Rightarrow> string option \<times> string option \<times> 'w Server \<times> 'w" where
  "tool_calls_loop unmarshal s [] w = (None, None, s, w)"
| "tool_calls_loop unmarshal s (None # toolCalls) w = tool_calls_loop unmarshal s toolCalls w"
| "tool_calls_loop unmarshal s (Some functionCall # toolCalls) w =
     (case invokeTool unmarshal s functionCall w of
        (Inr result, s', w') \<Rightarrow> (None, Some result, s', w')
      | (Inl err, s', w') \<Rightarrow> tool_calls_loop unmarshal s' toolCalls w')"

definition registeredTools :: "'w Server \<Rightarrow> (string \<times> string \<times> gomap) list" where
  "registeredTools s = map (\<lambda>(k, tool). (Name tool, Description tool, InputSchema tool)) (tools s)"

definition CallLLM ::
  "Unmarshal \<Rightarrow> 'w LLM \<Rightarrow> string \<Rightarrow> 'w Server \<Rightarrow> string \<Rightarrow> string \<Rightarrow> 'w
     \<Rightarrow> string option \<times> string option \<times> 'w Server \<times> 'w" where
  "CallLLM unmarshal llm universal s systemPromptOverride input w =
     (case llm input (GetSystemPrompt universal systemPromptOverride) (registeredTools s) w of
        (Inl err, w') \<Rightarrow> (Some (''LLM API error: '' @ err), None, s, w')
      | (Inr [], w') \<Rightarrow> (Some ''LLM returned an empty response'', None, s, w')
      | (Inr (choice # _), w') \<Rightarrow>
          (if ToolCalls choice \<noteq> [] then tool_calls_loop unmarshal s (ToolCalls choice) w'
           else (None, Some (Content choice), s, w')))"

text \<open>
  \<open>ExecutePlan\<close>. The plan text comes from the RPC layer or from
  \<open>ProcessInstruction\<close>, never as a nil pointer. First the decoded value is turned
  into the list of action objects (the type switch), then the actions run in order.
  Each step looks its action up in the tool map as the handlers of the earlier steps
  have left it.
\<close>

fun plan_objects :: "json list \<Rightarrow> (string \<times> json) list list option" where
  "plan_objects [] = Some []"
| "plan_objects (JObject m # v) =
     (case plan_objects v of None \<Rightarrow> None | Some plan \<Rightarrow> Some (m # plan))"
| "plan_objects (elem # v) = None"

fun plan_of_raw :: "json \<Rightarrow> string + (string \<times> json) list list" where
  "plan_of_raw (JArray v) =
     (case plan_objects v of
        None \<Rightarrow> Inl ''plan array contains non-object element''
      | Some plan \<Rightarrow> Inr plan)"
| "plan_of_raw (JObject v) = Inr [v]"
| "plan_of_raw raw = Inl ''plan JSON is neither an object nor an array''"

definition strip_functions :: "string \<Rightarrow> string" where
  "strip_functions actionType =
     (if HasPrefix actionType ''functions.'' then TrimPrefix actionType ''functions.''
      else actionType)"

definition action_parameters :: "(string \<times> json) list \<Rightarrow> gomap" where
  "action_parameters action =
     (case map_of action ''parameters'' of Some (JObject m) \<Rightarrow> Some m | _ \<Rightarrow> None)"

fun run_actions ::
  "'w Server \<Rightarrow> (string \<times> json) list list \<Rightarrow> 'w \<Rightarrow> RPCError option \<times> 'w Server \<times> 'w" where
  "run_actions s [] w = (None, s, w)"
| "run_actions s (action # plan) w =
     (case map_of action ''action'' of
        Some (JString actionType) \<Rightarrow>
          (if actionType = [] then (Some (NewError (- 32602) ''invalid action format''), s, w)
           else
             (case map_of (tools s) (strip_functions actionType) of
                Some tool \<Rightarrow>
                  (case call_handler (Handler tool) (action_parameters action) s w of
                     (Some err, s', w') \<Rightarrow>
                       (Some (NewError (- 32000)
                          (''failed to execute tool '' @ strip_functions actionType @ '': '' @ err)),
                        s', w')
                   | (None, s', w') \<Rightarrow> run_actions s' plan w')
              | None \<Rightarrow>
                  (Some (NewError (- 32601) (''unknown action: '' @ strip_functions actionType)),
                   s, w)))
      | _ \<Rightarrow> (Some (NewError (- 32602) ''invalid action format''), s, w))"

text \<open>
  The three entry points return the Go \<open>error\<close> (\<open>None\<close> for nil), what they wrote to
  \<open>*reply\<close> (\<open>None\<close> when they left it untouched), the server and the world.
\<close>

definition ExecutePlan ::
  "Unmarshal \<Rightarrow> 'w Server \<Rightarrow> string \<Rightarrow> 'w
     \<Rightarrow> string option \<times> RPCResponse option \<times> 'w Server \<times> 'w" where
  "ExecutePlan unmarshal s planJSON w =
     (if planJSON = [] then
        (None, Some (errorResponse (- 32602) ''ExecutePlan received empty plan''), s, w)
      else
        (case unmarshal planJSON of
           Inl err \<Rightarrow>
             (None, Some (errorResponse (- 32700) (''failed to parse plan JSON: '' @ err)), s, w)
         | Inr raw \<Rightarrow>
             (case plan_of_raw raw of
                Inl msg \<Rightarrow> (None, Some (errorResponse (- 32700) msg), s, w)
              | Inr plan \<Rightarrow>
                  (if plan = [] then
                     (None, Some (errorResponse (- 32602) ''received empty plan from LLM''), s, w)
                   else
                     (case run_actions s plan w of
                        (Some e, s', w') \<Rightarrow>
                          (None, Some (errorResponse (Code e) (Message e)), s', w')
                      | (None, s', w') \<Rightarrow>
                          (None,
                           Some (resultResponse (Marshal_status ''Plan executed successfully'')),
                           s', w'))))))"

definition CallTool ::
  "'w Server \<Rightarrow> ToolCallArgs \<Rightarrow> 'w \<Rightarrow> string option \<times> RPCResponse option \<times> 'w Server \<times> 'w" where
  "CallTool s args w =
     (case map_of (tools s) (ToolName args) of
        None \<Rightarrow>
          (None, Some (errorResponse (- 32601) (''unknown tool: '' @ ToolName args)), s, w)
      | Some tool \<Rightarrow>
          (case call_handler (Handler tool) (Parameters args) s w of
             (Some err, s', w') \<Rightarrow>
               (None,
                Some (errorResponse (- 32000)
                  (''failed to execute tool '' @ ToolName args @ '': '' @ err)), s', w')
           | (None, s', w') \<Rightarrow>
               (None,
                Some (resultResponse
                  (Marshal_status (''Tool '' @ ToolName args @ '' executed successfully''))),
                s', w')))"

text \<open>
  \<open>ProcessInstruction\<close> also returns the value of \<open>systemPromptOverride\<close> it leaves
  behind: unchanged on the two listing paths, cleared by the deferred call on the
  planning path. Marshalling a \<open>[]string\<close> cannot fail, so the three
  "failed to marshal" returns have no branch here.
\<close>

definition ProcessInstruction ::
  "(nat \<Rightarrow> nat) \<Rightarrow> Unmarshal \<Rightarrow> 'w LLM \<Rightarrow> string \<Rightarrow> 'w Server \<Rightarrow> string \<Rightarrow> string \<Rightarrow> 'w
     \<Rightarrow> string option \<times> RPCResponse option \<times> string \<times> 'w Server \<times> 'w" where
  "ProcessInstruction caseTable unmarshal llm universal s systemPromptOverride instruction w =
     (let lowerInst = ToLower caseTable instruction in
      if IsListServicesQuery caseTable lowerInst then
        (None, Some (resultResponse (Marshal_strings (listServices s))),
         systemPromptOverride, s, w)
      else if IsListToolsQuery caseTable lowerInst then
        (case ExtractServiceName lowerInst of
           (serviceName, True) \<Rightarrow>
             (None,
              Some (resultResponse (Marshal_strings (listToolsForService caseTable s serviceName))),
              systemPromptOverride, s, w)
         | (serviceName, False) \<Rightarrow>
             (None, Some (resultResponse (Marshal_strings (listTools s))),
              systemPromptOverride, s, w))
      else
        (let universalPrompt = GetSystemPrompt universal systemPromptOverride in
         case CallLLM unmarshal llm universal s universalPrompt instruction w of
           (Some err, plan, s', w') \<Rightarrow>
             (Some (''ProcessInstruction: failed to call LLM: '' @ err), None, [], s', w')
         | (None, plan, s', w') \<Rightarrow>
             (case ExecutePlan unmarshal s' (case plan of None \<Rightarrow> [] | Some p \<Rightarrow> p) w' of
                (Some err, reply, s'', w'') \<Rightarrow>
                  (Some (''ProcessInstruction: failed to execute plan: '' @ err), reply, [],
                   s'', w'')
              | (None, reply, s'', w'') \<Rightarrow> (None, reply, [], s'', w''))))"

section \<open>Package reg: the two loaders\<close>

text \<open>
  Resolving a tool's implementation is foreign code (the Yaegi interpreter, or
  \<open>plugin.Open\<close> and \<open>Lookup\<close>); it may act on the world. Its outcome is one of
  the three failures the loaders tell apart, or the handler.
\<close>

datatype 'w Resolved =
    ResolveError string
  | SymbolError string
  | WrongSignature
  | Loaded "'w ToolHandler"

subsection \<open>servicestools.go: handlers evaluated from source\<close>

record ToolConfig =
  toolName :: string
  toolDescription :: string
  toolEnabled :: bool
  toolSchema :: gomap
  toolPlugin :: string

record ServiceConfig =
  svcName :: string
  svcEnabled :: bool
  svcTools :: "ToolConfig list"

record Config =
  Services :: "ServiceConfig list"

text \<open>
  \<open>interp plugin\<close> stands for the fresh interpreter of one tool: importing
  \<open>plugin\<close> (\<open>ResolveError\<close>), evaluating \<open>Handler\<close> (\<open>SymbolError\<close>) and the type
  assertion (\<open>WrongSignature\<close>). \<open>loadConfig\<close> (reading and decoding the file)
  returns the configuration or the text of its error.
\<close>

type_synonym 'w Interp = "string \<Rightarrow> 'w \<Rightarrow> 'w Resolved \<times> 'w"

fun load_tools ::
  "'w Interp \<Rightarrow> ToolConfig list \<Rightarrow> 'w Server \<Rightarrow> 'w \<Rightarrow> string option \<times> 'w Server \<times> 'w" where
  "load_tools interp [] r w = (None, r, w)"
| "load_tools interp (tool # rest) r w =
     (if \<not> toolEnabled tool then load_tools interp rest r w
      else
        (case interp (toolPlugin tool) w of
           (ResolveError err, w') \<Rightarrow>
             (Some (''failed to evaluate plugin for tool ['' @ toolName tool @ '']: '' @ err), r, w')
         | (SymbolError err, w') \<Rightarrow>
             (Some (''failed to retrieve Handler symbol for tool '' @ toolName tool @ '': '' @ err),
              r, w')
         | (WrongSignature, w') \<Rightarrow>
             (Some (''handler for tool '' @ toolName tool @ '' does not have the correct signature''),
              r, w')
         | (Loaded handler, w') \<Rightarrow>
             load_tools interp rest
               (RegisterTool (toolName tool) (toolDescription tool) (toolSchema tool) handler r) w'))"

fun load_services ::
  "'w Interp \<Rightarrow> ServiceConfig list \<Rightarrow> 'w Server \<Rightarrow> 'w \<Rightarrow> string option \<times> 'w Server \<times> 'w" where
  "load_services interp [] r w = (None, r, w)"
| "load_services interp (svc # rest) r w =
     (if \<not> svcEnabled svc then load_services interp rest r w
      else
        (case load_tools interp (svcTools svc) r w of
           (Some err, r', w') \<Rightarrow> (Some err, r', w')
         | (None, r', w') \<Rightarrow> load_services interp rest r' w'))"

definition RegisterToolsFromConfig ::
  "(string \<Rightarrow> string + Config) \<Rightarrow> 'w Interp \<Rightarrow> 'w Server \<Rightarrow> string \<Rightarrow> 'w
     \<Rightarrow> string option \<times> 'w Server \<times> 'w" where
  "RegisterToolsFromConfig loadConfig interp r configPath w =
     (case loadConfig configPath of
        Inl err \<Rightarrow> (Some err, r, w)
      | Inr cfg \<Rightarrow> load_services interp (Services cfg) r w)"

subsection \<open>The second loader: handlers looked up in compiled plugins\<close>

record PluginConfig =
  Path :: string
  Symbol :: string

record PluginToolConfig =
  ptName :: string
  ptDescription :: string
  ptSchema :: gomap
  ptPlugin :: PluginConfig

record PluginServiceConfig =
  psName :: string
  psTools :: "PluginToolConfig list"

record PluginFileConfig =
  pfServices :: "PluginServiceConfig list"

text \<open>
  The structs of this loader have no field tagged \<open>enabled\<close>. A service or tool entry
  of the YAML file may still carry that key; \<open>yaml.Unmarshal\<close> fills the fields the
  tags name and ignores a key without a field. An entry of the file is therefore the
  value of its \<open>enabled\<close> key together with what the struct receives, and decoding
  keeps the latter only.
\<close>

record ToolEntry =
  entryEnabled :: bool
  entryTool :: PluginToolConfig

record ServiceEntry =
  entryServiceEnabled :: bool
  entryServiceName :: string
  entryTools :: "ToolEntry list"

definition decodeService :: "ServiceEntry \<Rightarrow> PluginServiceConfig" where
  "decodeService e = \<lparr>psName = entryServiceName e, psTools = map entryTool (entryTools e)\<rparr>"

definition decodeFile :: "ServiceEntry list \<Rightarrow> PluginFileConfig" where
  "decodeFile es = \<lparr>pfServices = map decodeService es\<rparr>"

text \<open>
  \<open>readYAML\<close> reads the file and parses it into its entries, or fails with an error
  text. \<open>plugin path symbol\<close> stands for \<open>plugin.Open\<close> (\<open>ResolveError\<close>),
  \<open>Lookup\<close> (\<open>SymbolError\<close>) and the type assertion (\<open>WrongSignature\<close>).
\<close>

definition loadConfig_plugin ::
  "(string \<Rightarrow> string + ServiceEntry list) \<Rightarrow> string \<Rightarrow> string + PluginFileConfig" where
  "loadConfig_plugin readYAML path =
     (case readYAML path of Inl err \<Rightarrow> Inl err | Inr es \<Rightarrow> Inr (decodeFile es))"

type_synonym 'w PluginOpen = "string \<Rightarrow> string \<Rightarrow> 'w \<Rightarrow> 'w Resolved \<times> 'w"

fun load_plugin_tools ::
  "'w PluginOpen \<Rightarrow> PluginToolConfig list \<Rightarrow> 'w Server \<Rightarrow> 'w
     \<Rightarrow> string option \<times> 'w Server \<times> 'w" where
  "load_plugin_tools plugin [] r w = (None, r, w)"
| "load_plugin_tools plugin (tool # rest) r w =
     (case plugin (Path (ptPlugin tool)) (Symbol (ptPlugin tool)) w of
        (ResolveError err, w') \<Rightarrow>
          (Some (''failed to open plugin '' @ Path (ptPlugin tool) @ '': '' @ err), r, w')
      | (SymbolError err, w') \<Rightarrow>
          (Some (''failed to lookup symbol '' @ Symbol (ptPlugin tool) @ '' in plugin ''
                   @ Path (ptPlugin tool) @ '': '' @ err), r, w')
      | (WrongSignature, w') \<Rightarrow>
          (Some (''plugin symbol '' @ Symbol (ptPlugin tool) @ '' in '' @ Path (ptPlugin tool)
                   @ '' does not match expected handler signature''), r, w')
      | (Loaded handler, w') \<Rightarrow>
          load_plugin_tools plugin rest
            (RegisterTool (ptName tool) (ptDescription tool) (ptSchema tool) handler r) w')"

fun load_plugin_services ::
  "'w PluginOpen \<Rightarrow> PluginServiceConfig list \<Rightarrow> 'w Server \<Rightarrow> 'w
     \<Rightarrow> string option \<times> 'w Server \<times> 'w" where
  "load_plugin_services plugin [] r w = (None, r, w)"
| "load_plugin_services plugin (svc # rest) r w =
     (case load_plugin_tools plugin (psTools svc) r w of
        (Some err, r', w') \<Rightarrow> (Some err, r', w')
      | (None, r', w') \<Rightarrow> load_plugin_services plugin rest r' w')"

definition RegisterToolsFromConfig_plugin ::
  "(string \<Rightarrow> string + ServiceEntry list) \<Rightarrow> 'w PluginOpen \<Rightarrow> 'w Server \<Rightarrow> string \<Rightarrow> 'w
     \<Rightarrow> string option \<times> 'w Server \<times> 'w" where
  "RegisterToolsFromConfig_plugin readYAML plugin r configPath w =
     (case loadConfig_plugin readYAML configPath of
        Inl err \<Rightarrow> (Some (''failed to load config: '' @ err), r, w)
      | Inr cfg \<Rightarrow> load_plugin_services plugin (pfServices cfg) r w)"

section \<open>Package server: NewServer\<close>

text \<open>
  \<open>NewServer\<close> reads \<open>OPENAI_API_KEY\<close> and \<open>HOME\<close> from the environment (the
  parameters \<open>apiKey\<close> and \<open>homeDir\<close>), creates the model client (\<open>openaiError\<close> is
  the error of \<open>openai.New\<close>, if any), allocates the two empty maps and runs the loader
  on \<open>$HOME/mcp-godocker/plug.yaml\<close>. An error of the loader is logged and otherwise
  ignored. The Docker client, which may be nil, plays no part in dispatching.
\<close>

definition NewServer ::
  "string \<Rightarrow> string option \<Rightarrow> string \<Rightarrow> (string \<Rightarrow> string + Config) \<Rightarrow> 'w Interp \<Rightarrow> 'w
     \<Rightarrow> (string + 'w Server) \<times> 'w" where
  "NewServer apiKey openaiError homeDir loadConfig interp w =
     (if apiKey = [] then (Inl ''OPENAI_API_KEY environment variable not set'', w)
      else
        (case openaiError of
           Some err \<Rightarrow> (Inl err, w)
         | None \<Rightarrow>
             (case RegisterToolsFromConfig loadConfig interp emptyServer
                     (homeDir @ ''/mcp-godocker/plug.yaml'') w of
                (err, s, w') \<Rightarrow> (Inr s, w'))))"

section \<open>What the transport receives\<close>

text \<open>
  An entry point has kept a failure inside the envelope when its Go error is nil and it
  wrote a response of version 2.0 in which exactly one of result and error is set.
\<close>

definition enveloped :: "string option \<Rightarrow> RPCResponse option \<Rightarrow> bool" where
  "enveloped err reply =
     (err = None \<and>
      (case reply of
         None \<Rightarrow> False
       | Some r \<Rightarrow> Version r = JSONRPCVersion \<and> ((Error r = None) \<noteq> (Result r = None))))"

text \<open>
  A failure is captured with the code \<open>code\<close> when the Go error is nil and the
  response written has version 2.0, no result, and the error field set to an
  \<open>RPCError\<close> of that code.
\<close>

definition captured :: "int \<Rightarrow> string option \<Rightarrow> RPCResponse option \<Rightarrow> bool" where
  "captured code err reply =
     (err = None \<and>
      (case reply of
         None \<Rightarrow> False
       | Some r \<Rightarrow>
           Version r = JSONRPCVersion \<and> Result r = None \<and>
           (case Error r of None \<Rightarrow> False | Some e \<Rightarrow> Code e = code)))"

text \<open>
  The same two predicates on what an entry point returns: the Go error first, the
  reply second.
\<close>

definition envelops :: "string option \<times> RPCResponse option \<times> 'x \<Rightarrow> bool" where
  "envelops out = enveloped (fst out) (fst (snd out))"

definition captures :: "int \<Rightarrow> string option \<times> RPCResponse option \<times> 'x \<Rightarrow> bool" where
  "captures code out = captured code (fst out) (fst (snd out))"

text \<open>
  The model call of \<open>ProcessInstruction\<close> fails when the instruction is no listing
  query and the client returns an error or no choice at all.
\<close>

definition model_call_fails ::
  "(nat \<Rightarrow> nat) \<Rightarrow> 'w LLM \<Rightarrow> string \<Rightarrow> 'w Server \<Rightarrow> string \<Rightarrow> string \<Rightarrow> 'w \<Rightarrow> bool" where
  "model_call_fails caseTable llm universal s systemPromptOverride instruction w =
     (\<not> IsListServicesQuery caseTable (ToLower caseTable instruction) \<and>
      \<not> IsListToolsQuery caseTable (ToLower caseTable instruction) \<and>
      (case fst (llm instruction
                   (GetSystemPrompt universal (GetSystemPrompt universal systemPromptOverride))
                   (registeredTools s) w) of
         Inl err \<Rightarrow> True
       | Inr choices \<Rightarrow> choices = []))"

text \<open>
  Equality up to ASCII case folding, in the words of the claim: two strings of the
  same length whose bytes agree position by position, or are the upper-case and the
  lower-case form of one of the twenty-six letters.
\<close>

definition same_letter :: "char \<Rightarrow> char \<Rightarrow> bool" where
  "same_letter x y =
     (x = y \<or>
      (x, y) \<in> set (zip ''ABCDEFGHIJKLMNOPQRSTUVWXYZ'' ''abcdefghijklmnopqrstuvwxyz'') \<or>
      (y, x) \<in> set (zip ''ABCDEFGHIJKLMNOPQRSTUVWXYZ'' ''abcdefghijklmnopqrstuvwxyz''))"

definition ascii_fold_eq :: "string \<Rightarrow> string \<Rightarrow> bool" where
  "ascii_fold_eq a b = list_all2 same_letter a b"

section \<open>The loading algorithm as the specification words it\<close>

text \<open>
  Section 4.2 of the specification, steps 2c to 2e and 3, on a list of tools: resolve
  the implementation of each tool in order, register it, and stop at the first failure.
  There is no test of an enabled flag here; it is compared with the loader of
  servicestools.go on the enabled tools of the enabled services.
\<close>

fun load_each ::
  "'w Interp \<Rightarrow> ToolConfig list \<Rightarrow> 'w Server \<Rightarrow> 'w \<Rightarrow> string option \<times> 'w Server \<times> 'w" where
  "load_each interp [] r w = (None, r, w)"
| "load_each interp (tool # rest) r w =
     (case interp (toolPlugin tool) w of
        (ResolveError err, w') \<Rightarrow>
          (Some (''failed to evaluate plugin for tool ['' @ toolName tool @ '']: '' @ err), r, w')
      | (SymbolError err, w') \<Rightarrow>
          (Some (''failed to retrieve Handler symbol for tool '' @ toolName tool @ '': '' @ err),
           r, w')
      | (WrongSignature, w') \<Rightarrow>
          (Some (''handler for tool '' @ toolName tool @ '' does not have the correct signature''),
           r, w')
      | (Loaded handler, w') \<Rightarrow>
          load_each interp rest
            (RegisterTool (toolName tool) (toolDescription tool) (toolSchema tool) handler r) w')"

definition enabled_tools :: "Config \<Rightarrow> ToolConfig list" where
  "enabled_tools cfg =
     concat (map (\<lambda>svc. filter toolEnabled (svcTools svc)) (filter svcEnabled (Services cfg)))"

section \<open>Concrete inputs for the examples\<close>

text \<open>
  Handlers that record their call in the world, which is then the log of the calls made.
\<close>

definition logging_handler :: "string \<Rightarrow> string list ToolHandler" where
  "logging_handler tag = ToolHandler (\<lambda>params w. (None, w @ [tag], []))"

definition failing_handler :: "string \<Rightarrow> string list ToolHandler" where
  "failing_handler tag = ToolHandler (\<lambda>params w. (Some ''boom'', w @ [tag], []))"

text \<open>A handler that registers the tool \<open>b\<close> through the registry it is handed.\<close>

definition registering_handler :: "string list ToolHandler" where
  "registering_handler =
     ToolHandler (\<lambda>params w.
       (None, w @ [''reg''], [(''b'', ''Added by reg'', None, logging_handler ''b'')]))"

definition docker_server :: "string list Server" where
  "docker_server =
     \<lparr>tools = [(''pull_image'', \<lparr>Name = ''pull_image'', Description = ''Pull an image'',
                   InputSchema = None, Handler = logging_handler ''pull_image'',
                   ServiceName = ''Docker''\<rparr>),
                (''git_init'', \<lparr>Name = ''git_init'', Description = ''Init a repository'',
                   InputSchema = None, Handler = logging_handler ''git_init'',
                   ServiceName = ''Git''\<rparr>)],
      services = [(''Docker'', ''Docker''), (''Git'', ''Git'')]\<rparr>"

text \<open>
  \<open>json.Unmarshal\<close> on the documents of the examples: a decoder that knows the documents
  of a table and rejects every other text.
\<close>

definition table_unmarshal :: "(string \<times> json) list \<Rightarrow> Unmarshal" where
  "table_unmarshal tbl text =
     (case map_of tbl text of Some v \<Rightarrow> Inr v | None \<Rightarrow> Inl ''invalid character'')"

definition example_docs :: "(string \<times> json) list" where
  "example_docs = [(''[]'', JArray []), (''{}'', JObject []), (''42'', JNumber ''42'')]"

text \<open>
  A registry with the tool \<open>a\<close>, whose handler fails, and the tool \<open>pull_image\<close>; the
  plan documents used below, with the values they decode to.
\<close>

definition example_server :: "string list Server" where
  "example_server =
     RegisterTool ''pull_image'' ''Pull an image'' None (logging_handler ''pull_image'')
       (RegisterTool ''a'' ''Always fails'' None (failing_handler ''a'') emptyServer)"

definition plan_a_b :: string where
  \<open>plan_a_b = ''[{"action":"a"},{"action":"b"}]''\<close>

definition plan_pull_b_pull :: string where
  \<open>plan_pull_b_pull =
     ''[{"action":"pull_image"},{"action":"functions.b"},{"action":"pull_image"}]''\<close>

definition registering_server :: "string list Server" where
  "registering_server = RegisterTool ''reg'' ''Registers b'' None registering_handler emptyServer"

definition plan_reg_b :: string where
  \<open>plan_reg_b = ''[{"action":"reg"},{"action":"b"}]''\<close>

definition plan_docs :: "(string \<times> json) list" where
  "plan_docs =
     [(plan_a_b, JArray [JObject [(''action'', JString ''a'')],
                         JObject [(''action'', JString ''b'')]]),
      (plan_reg_b, JArray [JObject [(''action'', JString ''reg'')],
                           JObject [(''action'', JString ''b'')]]),
      (plan_pull_b_pull,
         JArray [JObject [(''action'', JString ''pull_image'')],
                 JObject [(''action'', JString ''functions.b'')],
                 JObject [(''action'', JString ''pull_image'')]])]"

definition plan_pull :: string where
  \<open>plan_pull = ''[{"action":"pull_image"}]''\<close>

definition plan_functions_pull :: string where
  \<open>plan_functions_pull = ''[{"action":"functions.pull_image"}]''\<close>

definition plan_functions_functions_pull :: string where
  \<open>plan_functions_functions_pull = ''[{"action":"functions.functions.pull_image"}]''\<close>

definition plan_functions_only :: string where
  \<open>plan_functions_only = ''[{"action":"functions."}]''\<close>

definition plan_empty_action :: string where
  \<open>plan_empty_action = ''[{"action":""}]''\<close>

definition prefix_docs :: "(string \<times> json) list" where
  "prefix_docs =
     [(plan_pull, JArray [JObject [(''action'', JString ''pull_image'')]]),
      (plan_functions_pull, JArray [JObject [(''action'', JString ''functions.pull_image'')]]),
      (plan_functions_functions_pull,
         JArray [JObject [(''action'', JString ''functions.functions.pull_image'')]]),
      (plan_functions_only, JArray [JObject [(''action'', JString ''functions.'')]]),
      (plan_empty_action, JArray [JObject [(''action'', JString [])]])]"

text \<open>A model client that cannot be reached, and one that answers with a plan text.\<close>

definition unreachable_llm :: "string list LLM" where
  "unreachable_llm input system toolList w = (Inl ''connection refused'', w @ [''llm''])"

definition answering_llm :: "string \<Rightarrow> string list LLM" where
  "answering_llm answer input system toolList w =
     (Inr [\<lparr>Content = answer, ToolCalls = []\<rparr>], w @ [''llm''])"

text \<open>
  A resolver for the loaders that records the references it is given, and
  configurations with disabled and broken entries.
\<close>

definition example_interp :: "string list Interp" where
  "example_interp plugin w =
     (if plugin = ''plugins/broken'' then (ResolveError ''import not found'', w @ [plugin])
      else if plugin = ''plugins/nohandler'' then (SymbolError ''undefined: Handler'', w @ [plugin])
      else if plugin = ''plugins/badsig'' then (WrongSignature, w @ [plugin])
      else (Loaded (logging_handler plugin), w @ [plugin]))"

definition tool_config :: "string \<Rightarrow> bool \<Rightarrow> string \<Rightarrow> ToolConfig" where
  "tool_config name enabled plugin =
     \<lparr>toolName = name, toolDescription = [], toolEnabled = enabled, toolSchema = None,
      toolPlugin = plugin\<rparr>"

definition config_with_disabled :: Config where
  "config_with_disabled =
     \<lparr>Services =
        [\<lparr>svcName = ''docker'', svcEnabled = True,
          svcTools = [tool_config ''pull_image'' True ''plugins/pull'',
                      tool_config ''create_network'' False ''plugins/broken'']\<rparr>,
         \<lparr>svcName = ''legacy'', svcEnabled = False,
          svcTools = [tool_config ''old_tool'' True ''plugins/broken'']\<rparr>,
         \<lparr>svcName = ''git'', svcEnabled = True,
          svcTools = [tool_config ''git_init'' True ''plugins/git_init'']\<rparr>]\<rparr>"

definition config_with_mismatch :: Config where
  "config_with_mismatch =
     \<lparr>Services =
        [\<lparr>svcName = ''docker'', svcEnabled = True,
          svcTools = [tool_config ''pull_image'' True ''plugins/pull'',
                      tool_config ''run_container'' True ''plugins/badsig'',
                      tool_config ''create_volume'' True ''plugins/volume'']\<rparr>]\<rparr>"

definition example_plugin :: "string list PluginOpen" where
  "example_plugin path symbol w =
     (if path = ''broken.so'' then (ResolveError ''file not found'', w @ [path])
      else (Loaded (logging_handler symbol), w @ [path]))"

definition plugin_entry :: "string \<Rightarrow> bool \<Rightarrow> string \<Rightarrow> ToolEntry" where
  "plugin_entry name enabled path =
     \<lparr>entryEnabled = enabled,
      entryTool = \<lparr>ptName = name, ptDescription = [], ptSchema = None,
                   ptPlugin = \<lparr>Path = path, Symbol = ''Handler''\<rparr>\<rparr>\<rparr>"

definition file_disabled_broken :: "ServiceEntry list" where
  "file_disabled_broken =
     [\<lparr>entryServiceEnabled = True, entryServiceName = ''docker'',
       entryTools = [plugin_entry ''create_network'' False ''broken.so'']\<rparr>]"

definition file_disabled_good :: "ServiceEntry list" where
  "file_disabled_good =
     [\<lparr>entryServiceEnabled = False, entryServiceName = ''docker'',
       entryTools = [plugin_entry ''create_network'' False ''network.so'']\<rparr>]"

text \<open>
  The one entry of the Unicode case tables the examples need: \<open>U+00D6\<close>, the capital
  letter O with diaeresis, has the lower case \<open>U+00F6\<close>. The service name
  \<open>D\<close>, \<open>U+00D6\<close>, \<open>CKER\<close> and the query \<open>d\<close>, \<open>U+00F6\<close>, \<open>cker\<close> in UTF-8.
\<close>

definition diaeresis_table :: "nat \<Rightarrow> nat" where
  "diaeresis_table r = (if r = 0xD6 then 0xF6 else r)"

definition name_upper :: string where
  "name_upper = [CHR ''D'', CHR 0xC3, CHR 0x96, CHR ''C'', CHR ''K'', CHR ''E'', CHR ''R'']"

definition name_lower :: string where
  "name_lower = [CHR ''d'', CHR 0xC3, CHR 0xB6, CHR ''c'', CHR ''k'', CHR ''e'', CHR ''r'']"

definition diaeresis_server :: "string list Server" where
  "diaeresis_server =
     \<lparr>tools = [(''pull_image'', \<lparr>Name = ''pull_image'', Description = ''Pull an image'',
                   InputSchema = None, Handler = logging_handler ''pull_image'',
                   ServiceName = name_upper\<rparr>)],
      services = []\<rparr>"

section \<open>Facts about strings, slices and the registry\<close>

lemma ToLower_ascii: "list_all is_ascii s \<Longrightarrow> ToLower caseTable s = map lower_byte s"
  by (simp add: ToLower_def)

lemma ToLower_examples:
  "ToLower caseTable ''Docker'' = ''docker''" "ToLower caseTable ''DOCKER'' = ''docker''"
  "ToLower caseTable ''docker'' = ''docker''"
  by (simp_all add: ToLower_def lower_byte_def is_ascii_def)

lemma EncodeRune_not_Nil: "EncodeRune r \<noteq> []"
  by (simp add: EncodeRune_def)

lemma Map_Nil_iff: "Map mapping s = [] \<longleftrightarrow> s = []"
  by (cases s) (simp_all add: Map_def EncodeRune_not_Nil)

lemma ToLower_Nil_iff: "ToLower caseTable q = [] \<longleftrightarrow> q = []"
  by (simp add: ToLower_def Map_Nil_iff)

lemma fold_table:
  assumes "distinct (map fst Z)" and "distinct (map snd Z)"
    and "fst ` set Z \<inter> snd ` set Z = {}"
  shows "(case map_of Z x of Some l \<Rightarrow> l | None \<Rightarrow> x) =
           (case map_of Z y of Some l \<Rightarrow> l | None \<Rightarrow> y)
         \<longleftrightarrow> (x = y \<or> (x, y) \<in> set Z \<or> (y, x) \<in> set Z)"
proof -
  have some: "\<And>a b. map_of Z a = Some b \<longleftrightarrow> (a, b) \<in> set Z"
    using assms(1) by simp
  have none: "\<And>a b. map_of Z a = None \<Longrightarrow> (a, b) \<notin> set Z"
    using some by (metis option.distinct(1))
  have inj: "\<And>a b c. (a, c) \<in> set Z \<Longrightarrow> (b, c) \<in> set Z \<Longrightarrow> a = b"
    using assms(2) by (metis distinct_map inj_on_def snd_conv fst_conv)
  have low: "\<And>a b. (a, b) \<in> set Z \<Longrightarrow> map_of Z b = None"
  proof -
    fix a b assume "(a, b) \<in> set Z"
    then have "b \<in> snd ` set Z" by force
    with assms(3) have "b \<notin> fst ` set Z" by blast
    then show "map_of Z b = None" by (simp add: map_of_eq_None_iff)
  qed
  show ?thesis
  proof (cases "map_of Z x")
    case None
    note nx = None
    show ?thesis
    proof (cases "map_of Z y")
      case None
      with nx none show ?thesis by auto
    next
      case (Some l)
      then have yl: "(y, l) \<in> set Z" using some by simp
      have "x = l \<longleftrightarrow> (y, x) \<in> set Z"
        using yl some Some by (metis option.inject)
      moreover have "x \<noteq> y" using nx Some by auto
      ultimately show ?thesis using nx Some none [OF nx] by simp
    qed
  next
    case (Some l)
    note sx = Some
    then have xl: "(x, l) \<in> set Z" using some by simp
    show ?thesis
    proof (cases "map_of Z y")
      case None
      have "l = y \<longleftrightarrow> (x, y) \<in> set Z"
        using xl some sx by (metis option.inject)
      moreover have "x \<noteq> y" using None sx by auto
      ultimately show ?thesis using sx None none [OF None] by simp
    next
      case (Some l')
      then have yl: "(y, l') \<in> set Z" using some by simp
      have a: "(x, y) \<notin> set Z"
        using low [of x y] Some by (metis option.distinct(1))
      have b: "(y, x) \<notin> set Z"
        using low [of y x] sx by (metis option.distinct(1))
      have "l = l' \<longleftrightarrow> x = y"
        using xl yl inj some sx Some by (metis option.inject)
      then show ?thesis using sx Some a b by simp
    qed
  qed
qed

lemma lower_byte_eq_iff: "lower_byte x = lower_byte y \<longleftrightarrow> same_letter x y"
  unfolding lower_byte_def same_letter_def
  by (rule fold_table) simp_all

lemma map_lower_byte_eq_iff: "map lower_byte a = map lower_byte b \<longleftrightarrow> ascii_fold_eq a b"
  unfolding ascii_fold_eq_def
proof (induction a arbitrary: b)
  case Nil
  then show ?case by auto
next
  case (Cons x a)
  then show ?case by (cases b) (auto simp: lower_byte_eq_iff)
qed

lemma ToLower_ascii_eq_iff:
  "list_all is_ascii a \<Longrightarrow> list_all is_ascii b \<Longrightarrow>
   ToLower caseTable a = ToLower caseTable b \<longleftrightarrow> ascii_fold_eq a b"
  by (simp add: ToLower_ascii map_lower_byte_eq_iff)

lemma is_ascii_iff: "is_ascii c \<longleftrightarrow> (of_char c :: nat) < 0x80"
  by (cases c) (simp add: is_ascii_def)

lemma fold_append_Slice:
  "fold (\<lambda>(k, t) acc. if P t then append_slice acc (f t) else acc) xs (Slice ys)
     = Slice (ys @ map f (filter P (map snd xs)))"
  by (induction xs arbitrary: ys) (auto split: prod.splits)

lemma fold_append_Nil:
  "fold (\<lambda>(k, t) acc. if P t then append_slice acc (f t) else acc) xs NilSlice
     = (if filter P (map snd xs) = [] then NilSlice else Slice (map f (filter P (map snd xs))))"
  by (induction xs) (auto split: prod.splits simp: fold_append_Slice)

lemma listToolsForService_eq:
  "listToolsForService caseTable s q =
     (if filter (\<lambda>t. ToLower caseTable (ServiceName t) = ToLower caseTable q) (map snd (tools s)) = [] then NilSlice
      else Slice (map describe_tool
             (filter (\<lambda>t. ToLower caseTable (ServiceName t) = ToLower caseTable q) (map snd (tools s)))))"
  unfolding listToolsForService_def by (rule fold_append_Nil)

lemma listTools_eq:
  "listTools s = (if tools s = [] then NilSlice else Slice (map describe_tool (map snd (tools s))))"
  using fold_append_Nil [of "\<lambda>t. True" describe_tool "tools s"]
  by (simp add: listTools_def)

lemma listServices_eq:
  "listServices s = (if services s = [] then NilSlice else Slice (map snd (services s)))"
  using fold_append_Nil [of "\<lambda>t. True" "\<lambda>x. x" "services s"]
  by (simp add: listServices_def)

lemma elems_listToolsForService:
  "elems (listToolsForService caseTable s q) =
     map describe_tool (filter (\<lambda>t. ToLower caseTable (ServiceName t) = ToLower caseTable q) (map snd (tools s)))"
  by (simp add: listToolsForService_eq)

lemma map_of_tools_RegisterTool:
  "map_of (tools (RegisterTool n d sc h s)) k =
     (if k = n
      then Some \<lparr>Name = n, Description = d, InputSchema = sc, Handler = h, ServiceName = []\<rparr>
      else map_of (tools s) k)"
  by (simp add: RegisterTool_def update_conv')

lemma distinct_tools_RegisterTool:
  "distinct (map fst (tools s)) \<Longrightarrow> distinct (map fst (tools (RegisterTool n d sc h s)))"
  by (simp add: RegisterTool_def distinct_update)

lemma keys_tools_RegisterTool:
  "fst ` set (tools (RegisterTool n d sc h s)) = insert n (fst ` set (tools s))"
  by (simp add: RegisterTool_def AList.dom_update)

lemma services_RegisterTool: "services (RegisterTool n d sc h s) = services s"
  by (simp add: RegisterTool_def)

lemma RegisterTool_twice:
  "RegisterTool n d2 sc2 h2 (RegisterTool n d1 sc1 h1 s) = RegisterTool n d2 sc2 h2 s"
  by (simp add: RegisterTool_def update_last)

lemma set_update_subset: "set (AList.update k v al) \<subseteq> insert (k, v) (set al)"
  by (induction al) auto

lemma unlabelled_RegisterTool:
  assumes "\<forall>t \<in> snd ` set (tools s). ServiceName t = []"
  shows "\<forall>t \<in> snd ` set (tools (RegisterTool n d sc h s)). ServiceName t = []"
proof -
  have "set (tools (RegisterTool n d sc h s)) \<subseteq>
          insert (n, \<lparr>Name = n, Description = d, InputSchema = sc, Handler = h, ServiceName = []\<rparr>)
            (set (tools s))"
    by (simp add: RegisterTool_def set_update_subset)
  with assms show ?thesis by fastforce
qed

lemma unlabelled_register_all:
  "\<forall>t \<in> snd ` set (tools s). ServiceName t = [] \<Longrightarrow>
   \<forall>t \<in> snd ` set (tools (register_all regs s)). ServiceName t = []"
  unfolding register_all_def
proof (induction regs arbitrary: s)
  case Nil
  then show ?case by simp
next
  case (Cons r regs)
  obtain n d sc h where r: "r = (n, d, sc, h)" by (cases r) auto
  show ?case
    using Cons.IH [OF unlabelled_RegisterTool [OF Cons.prems, of n d sc h]] by (simp add: r)
qed

lemma ToLower_empty_eq: "ToLower caseTable [] = ToLower caseTable q \<longleftrightarrow> q = []"
  using ToLower_Nil_iff [of caseTable q] ToLower_Nil_iff [of caseTable "[]"] by auto

lemma listToolsForService_unlabelled:
  assumes "\<forall>t \<in> snd ` set (tools s). ServiceName t = []"
  shows "listToolsForService caseTable s q = (if q = [] then listTools s else NilSlice)"
proof -
  have f: "filter (\<lambda>t. ToLower caseTable (ServiceName t) = ToLower caseTable q) (map snd (tools s)) =
        (if q = [] then map snd (tools s) else [])"
    using assms by (auto simp: filter_empty_conv ToLower_empty_eq intro!: filter_True)
  show ?thesis
  proof (cases "q = []")
    case True
    with f have "filter (\<lambda>t. ToLower caseTable (ServiceName t) = ToLower caseTable q) (map snd (tools s)) =
        map snd (tools s)" by simp
    then show ?thesis using True
      unfolding listToolsForService_eq listTools_eq by simp
  next
    case False
    with f have "filter (\<lambda>t. ToLower caseTable (ServiceName t) = ToLower caseTable q) (map snd (tools s)) = []"
      by simp
    then show ?thesis using False
      unfolding listToolsForService_eq by simp
  qed
qed


lemma call_handler_eq:
  "invoke h p w = (err, w', regs) \<Longrightarrow> call_handler h p s w = (err, register_all regs s, w')"
  by (simp add: call_handler_def)

lemma CallTool_registered:
  "map_of (tools s) n = Some tool \<Longrightarrow>
   CallTool s \<lparr>ToolName = n, Parameters = p\<rparr> w =
     (case call_handler (Handler tool) p s w of
        (Some err, s', w') \<Rightarrow>
          (None, Some (errorResponse (- 32000) (''failed to execute tool '' @ n @ '': '' @ err)),
           s', w')
      | (None, s', w') \<Rightarrow>
          (None, Some (resultResponse (Marshal_status (''Tool '' @ n @ '' executed successfully''))),
           s', w'))"
  by (cases "call_handler (Handler tool) p s w") (auto simp: CallTool_def split: option.splits)

lemma services_register_all: "services (register_all regs s) = services s"
  unfolding register_all_def
  by (induction regs arbitrary: s) (auto simp: services_RegisterTool)


lemma ExecutePlan_empty_string:
  "ExecutePlan unmarshal s [] w =
     (None, Some (errorResponse (- 32602) ''ExecutePlan received empty plan''), s, w)"
  by (simp add: ExecutePlan_def)

lemma ExecutePlan_parse_error:
  "p \<noteq> [] \<Longrightarrow> unmarshal p = Inl err \<Longrightarrow>
   ExecutePlan unmarshal s p w =
     (None, Some (errorResponse (- 32700) (''failed to parse plan JSON: '' @ err)), s, w)"
  by (simp add: ExecutePlan_def)

lemma ExecutePlan_bad_shape:
  "p \<noteq> [] \<Longrightarrow> unmarshal p = Inr raw \<Longrightarrow> plan_of_raw raw = Inl msg \<Longrightarrow>
   ExecutePlan unmarshal s p w = (None, Some (errorResponse (- 32700) msg), s, w)"
  by (simp add: ExecutePlan_def)

lemma ExecutePlan_no_actions:
  "p \<noteq> [] \<Longrightarrow> unmarshal p = Inr raw \<Longrightarrow> plan_of_raw raw = Inr [] \<Longrightarrow>
   ExecutePlan unmarshal s p w =
     (None, Some (errorResponse (- 32602) ''received empty plan from LLM''), s, w)"
  by (simp add: ExecutePlan_def)

lemma ExecutePlan_runs:
  "p \<noteq> [] \<Longrightarrow> unmarshal p = Inr raw \<Longrightarrow> plan_of_raw raw = Inr plan \<Longrightarrow> plan \<noteq> [] \<Longrightarrow>
   ExecutePlan unmarshal s p w =
     (case run_actions s plan w of
        (Some e, s', w') \<Rightarrow> (None, Some (errorResponse (Code e) (Message e)), s', w')
      | (None, s', w') \<Rightarrow>
          (None, Some (resultResponse (Marshal_status ''Plan executed successfully'')), s', w'))"
  by (simp add: ExecutePlan_def)

lemma plan_of_raw_neither:
  "(\<forall>a. v \<noteq> JArray a) \<Longrightarrow> (\<forall>m. v \<noteq> JObject m) \<Longrightarrow>
   plan_of_raw v = Inl ''plan JSON is neither an object nor an array''"
  by (cases v) auto

lemma run_actions_no_action:
  "map_of action ''action'' = None \<Longrightarrow>
   run_actions s (action # plan) w = (Some (NewError (- 32602) ''invalid action format''), s, w)"
  by simp

lemma run_actions_invalid:
  "(\<forall>name. map_of a ''action'' \<noteq> Some (JString name)) \<or> map_of a ''action'' = Some (JString []) \<Longrightarrow>
   run_actions s (a # post) w = (Some (NewError (- 32602) ''invalid action format''), s, w)"
  by (auto split: option.splits json.splits)

lemma run_actions_append:
  "run_actions s pre w = (None, s1, w1) \<Longrightarrow>
   run_actions s (pre @ rest) w = run_actions s1 rest w1"
proof (induction pre arbitrary: s w)
  case Nil
  then show ?case by simp
next
  case (Cons a pre)
  then show ?case
    by (auto split: option.splits json.splits if_splits prod.splits)
qed

lemma run_actions_unknown:
  "map_of a ''action'' = Some (JString name) \<Longrightarrow> name \<noteq> [] \<Longrightarrow>
   map_of (tools s) (strip_functions name) = None \<Longrightarrow>
   run_actions s (a # post) w =
     (Some (NewError (- 32601) (''unknown action: '' @ strip_functions name)), s, w)"
  by simp

lemma run_actions_handler_error:
  "map_of a ''action'' = Some (JString name) \<Longrightarrow> name \<noteq> [] \<Longrightarrow>
   map_of (tools s) (strip_functions name) = Some tool \<Longrightarrow>
   call_handler (Handler tool) (action_parameters a) s w = (Some err, s', w') \<Longrightarrow>
   run_actions s (a # post) w =
     (Some (NewError (- 32000)
        (''failed to execute tool '' @ strip_functions name @ '': '' @ err)), s', w')"
  by simp

lemma HasPrefix_append: "HasPrefix (p @ x) p"
  by (induction p) auto

lemma strip_functions_prefixed: "strip_functions (''functions.'' @ x) = x"
  using HasPrefix_append [of "''functions.''" x]
  by (simp add: strip_functions_def TrimPrefix_def del: HasPrefix.simps)

lemma strip_functions_plain: "\<not> HasPrefix x ''functions.'' \<Longrightarrow> strip_functions x = x"
  by (simp add: strip_functions_def)

lemma run_actions_append_cases:
  "run_actions s (pre @ rest) w =
     (case run_actions s pre w of
        (None, s1, w1) \<Rightarrow> run_actions s1 rest w1
      | (Some e, s1, w1) \<Rightarrow> (Some e, s1, w1))"
proof (induction pre arbitrary: s w)
  case Nil
  then show ?case by simp
next
  case (Cons a pre)
  then show ?case
    by (auto split: option.splits json.splits if_splits prod.splits)
qed

lemma run_actions_step_cong:
  assumes "map_of a ''action'' = Some (JString n)" and "map_of a' ''action'' = Some (JString n')"
    and "n \<noteq> []" and "n' \<noteq> []" and "strip_functions n = strip_functions n'"
    and "action_parameters a = action_parameters a'"
  shows "run_actions s (a # post) w = run_actions s (a' # post) w"
  using assms by (simp split: option.splits prod.splits)

lemma enveloped_errorResponse: "enveloped None (Some (errorResponse c m))"
  by (simp add: enveloped_def errorResponse_def)

lemma enveloped_resultResponse: "enveloped None (Some (resultResponse v))"
  by (simp add: enveloped_def resultResponse_def)

lemma captured_errorResponse: "captured c None (Some (errorResponse c m))"
  by (simp add: captured_def errorResponse_def NewError_def)

lemma captured_enveloped: "captured c err reply \<Longrightarrow> enveloped err reply"
  by (auto simp: captured_def enveloped_def split: option.splits)

lemma ExecutePlan_enveloped:
  "\<exists>r s' w'. ExecutePlan unmarshal s p w = (None, Some r, s', w') \<and> enveloped None (Some r)"
  by (auto simp: ExecutePlan_def enveloped_errorResponse enveloped_resultResponse
      split: sum.splits prod.splits option.splits)

lemma CallTool_enveloped:
  "\<exists>r s' w'. CallTool s args w = (None, Some r, s', w') \<and> enveloped None (Some r)"
  by (auto simp: CallTool_def enveloped_errorResponse enveloped_resultResponse
      split: sum.splits prod.splits option.splits)

lemma tool_calls_loop_no_error: "fst (tool_calls_loop unmarshal s tcs w) = None"
  by (induction unmarshal s tcs w rule: tool_calls_loop.induct)
     (auto split: prod.splits sum.splits)

lemma CallLLM_error_iff:
  "fst (CallLLM unmarshal llm universal s ov' i w) \<noteq> None \<longleftrightarrow>
     (case fst (llm i (GetSystemPrompt universal ov') (registeredTools s) w) of
        Inl err \<Rightarrow> True | Inr choices \<Rightarrow> choices = [])"
  using tool_calls_loop_no_error
  by (auto simp: CallLLM_def split: prod.splits sum.splits list.splits)

lemma ProcessInstruction_listing:
  "IsListServicesQuery caseTable (ToLower caseTable i) \<or>
   IsListToolsQuery caseTable (ToLower caseTable i) \<Longrightarrow>
   \<exists>v. ProcessInstruction caseTable unmarshal llm universal s ov i w =
         (None, Some (resultResponse v), ov, s, w)"
  by (auto simp: ProcessInstruction_def Let_def split: prod.splits bool.splits)

lemma ExecutePlan_never_errs:
  "(case ExecutePlan unmarshal s p w of
      (Some err, reply, s'', w'') \<Rightarrow>
        (Some (''ProcessInstruction: failed to execute plan: '' @ err), reply, [], s'', w'')
    | (None, reply, s'', w'') \<Rightarrow> (None, reply, [], s'', w'')) =
   (case ExecutePlan unmarshal s p w of (err, reply, s'', w'') \<Rightarrow> (None, reply, [], s'', w''))"
proof -
  obtain r s'' w'' where "ExecutePlan unmarshal s p w = (None, Some r, s'', w'')"
    using ExecutePlan_enveloped [of unmarshal s p w] by blast
  then show ?thesis by simp
qed

lemma ProcessInstruction_planning:
  assumes "\<not> IsListServicesQuery caseTable (ToLower caseTable i)"
    and "\<not> IsListToolsQuery caseTable (ToLower caseTable i)"
  shows "ProcessInstruction caseTable unmarshal llm universal s ov i w =
     (case CallLLM unmarshal llm universal s (GetSystemPrompt universal ov) i w of
        (Some err, plan, s', w') \<Rightarrow>
          (Some (''ProcessInstruction: failed to call LLM: '' @ err), None, [], s', w')
      | (None, plan, s', w') \<Rightarrow>
          (case ExecutePlan unmarshal s' (case plan of None \<Rightarrow> [] | Some p \<Rightarrow> p) w' of
             (err, reply, s'', w'') \<Rightarrow> (None, reply, [], s'', w'')))"
  using assms
  by (cases "CallLLM unmarshal llm universal s (GetSystemPrompt universal ov) i w")
     (auto simp: ProcessInstruction_def Let_def ExecutePlan_never_errs
        split: option.splits prod.splits)

lemma load_tools_eq_load_each:
  "load_tools interp ts r w = load_each interp (filter toolEnabled ts) r w"
  by (induction ts arbitrary: r w) (auto split: prod.splits Resolved.splits)

lemma load_each_append:
  "load_each interp (xs @ ys) r w =
     (case load_each interp xs r w of
        (None, r', w') \<Rightarrow> load_each interp ys r' w'
      | (Some err, r', w') \<Rightarrow> (Some err, r', w'))"
  by (induction xs arbitrary: r w) (auto split: prod.splits Resolved.splits)

lemma load_services_eq_load_each:
  "load_services interp svcs r w =
     load_each interp
       (concat (map (\<lambda>svc. filter toolEnabled (svcTools svc)) (filter svcEnabled svcs))) r w"
  by (induction svcs arbitrary: r w)
     (auto simp: load_tools_eq_load_each load_each_append split: prod.splits option.splits)

lemma RegisterToolsFromConfig_eq_load_each:
  "loadConfig path = Inr cfg \<Longrightarrow>
   RegisterToolsFromConfig loadConfig interp r path w = load_each interp (enabled_tools cfg) r w"
  by (simp add: RegisterToolsFromConfig_def enabled_tools_def load_services_eq_load_each)

lemma load_each_keys:
  "load_each interp ts r w = (e, r', w') \<Longrightarrow>
   fst ` set (tools r') \<subseteq> fst ` set (tools r) \<union> toolName ` set ts"
proof (induction ts arbitrary: r w)
  case Nil
  then show ?case by simp
next
  case (Cons t ts)
  obtain res w1 where i: "interp (toolPlugin t) w = (res, w1)"
    by (cases "interp (toolPlugin t) w") auto
  show ?case
  proof (cases res)
    case (Loaded h)
    with Cons.prems i have
      "load_each interp ts (RegisterTool (toolName t) (toolDescription t) (toolSchema t) h r) w1
         = (e, r', w')" by simp
    from Cons.IH [OF this] show ?thesis
      by (auto simp: keys_tools_RegisterTool)
  qed (use Cons.prems i in auto)
qed

lemma load_each_success_keys:
  "load_each interp ts r w = (None, r', w') \<Longrightarrow>
   fst ` set (tools r) \<union> toolName ` set ts \<subseteq> fst ` set (tools r')"
proof (induction ts arbitrary: r w)
  case Nil
  then show ?case by simp
next
  case (Cons t ts)
  obtain res w1 where i: "interp (toolPlugin t) w = (res, w1)"
    by (cases "interp (toolPlugin t) w") auto
  show ?case
  proof (cases res)
    case (Loaded h)
    with Cons.prems i have
      "load_each interp ts (RegisterTool (toolName t) (toolDescription t) (toolSchema t) h r) w1
         = (None, r', w')" by simp
    from Cons.IH [OF this] show ?thesis
      by (auto simp: keys_tools_RegisterTool)
  qed (use Cons.prems i in auto)
qed

lemma load_each_failure:
  "interp (toolPlugin t) w = (res, w') \<Longrightarrow> \<forall>h. res \<noteq> Loaded h \<Longrightarrow>
   \<exists>err. load_each interp (t # post) r w = (Some err, r, w')"
  by (cases res) auto

lemma load_each_services:
  "load_each interp ts r w = (e, r', w') \<Longrightarrow> services r' = services r"
proof (induction ts arbitrary: r w)
  case Nil
  then show ?case by simp
next
  case (Cons t ts)
  obtain res w1 where i: "interp (toolPlugin t) w = (res, w1)"
    by (cases "interp (toolPlugin t) w") auto
  show ?case
  proof (cases res)
    case (Loaded h)
    with Cons.prems i have
      "load_each interp ts (RegisterTool (toolName t) (toolDescription t) (toolSchema t) h r) w1
         = (e, r', w')" by simp
    from Cons.IH [OF this] show ?thesis
      by (simp add: services_RegisterTool)
  qed (use Cons.prems i in auto)
qed

lemma RegisterToolsFromConfig_services:
  "RegisterToolsFromConfig loadConfig interp r path w = (e, r', w') \<Longrightarrow> services r' = services r"
proof (cases "loadConfig path")
  case (Inl err)
  assume "RegisterToolsFromConfig loadConfig interp r path w = (e, r', w')"
  with Inl show ?thesis by (simp add: RegisterToolsFromConfig_def)
next
  case (Inr cfg)
  assume "RegisterToolsFromConfig loadConfig interp r path w = (e, r', w')"
  then have "load_each interp (enabled_tools cfg) r w = (e, r', w')"
    using Inr
    by (simp add: RegisterToolsFromConfig_eq_load_each
          [where loadConfig = loadConfig and path = path and cfg = cfg])
  then show ?thesis by (rule load_each_services)
qed

lemma NewServer_no_services:
  assumes "NewServer apiKey openaiError homeDir loadConfig interp w = (Inr s, w')"
  shows "services s = []"
proof -
  obtain e r' w1 where out:
    "RegisterToolsFromConfig loadConfig interp (emptyServer :: 'a Server)
       (homeDir @ ''/mcp-godocker/plug.yaml'') w = (e, r', w1)"
    by (cases "RegisterToolsFromConfig loadConfig interp (emptyServer :: 'a Server)
       (homeDir @ ''/mcp-godocker/plug.yaml'') w") auto
  from assms have "s = r'"
    by (auto simp: NewServer_def out split: if_splits option.splits)
  with RegisterToolsFromConfig_services [OF out] show ?thesis
    by (simp add: emptyServer_def)
qed

text \<open>
  The second loader visits every tool of every service of the file, whatever their
  \<open>enabled\<close> keys say, and stops at the first failure like the first loader.
\<close>

lemma load_plugin_tools_append:
  "load_plugin_tools plugin (xs @ ys) r w =
     (case load_plugin_tools plugin xs r w of
        (None, r', w') \<Rightarrow> load_plugin_tools plugin ys r' w'
      | (Some err, r', w') \<Rightarrow> (Some err, r', w'))"
  by (induction xs arbitrary: r w) (auto split: prod.splits Resolved.splits)

lemma load_plugin_services_flat:
  "load_plugin_services plugin svcs r w =
     load_plugin_tools plugin (concat (map psTools svcs)) r w"
  by (induction svcs arbitrary: r w)
     (auto simp: load_plugin_tools_append split: prod.splits option.splits)

lemma plugin_loader_loads_every_entry:
  "readYAML path = Inr es \<Longrightarrow>
   RegisterToolsFromConfig_plugin readYAML plugin r path w =
     load_plugin_tools plugin (concat (map (\<lambda>e. map entryTool (entryTools e)) es)) r w"
  by (simp add: RegisterToolsFromConfig_plugin_def loadConfig_plugin_def decodeFile_def
      decodeService_def load_plugin_services_flat comp_def)

lemma plugin_loader_failure_aborts:
  assumes "readYAML path = Inr es"
    and "concat (map (\<lambda>e. map entryTool (entryTools e)) es) = pre @ t # post"
    and "load_plugin_tools plugin pre r w = (None, r1, w1)"
    and "plugin (Path (ptPlugin t)) (Symbol (ptPlugin t)) w1 = (res, w2)"
    and "\<forall>h. res \<noteq> Loaded h"
  shows "\<exists>err. RegisterToolsFromConfig_plugin readYAML plugin r path w = (Some err, r1, w2)"
proof -
  have "\<exists>err. load_plugin_tools plugin (t # post) r1 w1 = (Some err, r1, w2)"
    using assms(4,5) by (cases res) auto
  then obtain err where "load_plugin_tools plugin (t # post) r1 w1 = (Some err, r1, w2)" ..
  then have "load_plugin_tools plugin (pre @ t # post) r w = (Some err, r1, w2)"
    by (simp add: load_plugin_tools_append assms(3))
  then show ?thesis
    using assms(1,2)
    by (simp add: plugin_loader_loads_every_entry
          [where readYAML = readYAML and path = path and es = es])
qed

lemma ExecutePlan_step_failure:
  assumes "p \<noteq> []" and "unmarshal p = Inr raw" and "plan_of_raw raw = Inr (pre @ a # post)"
    and "run_actions s pre w = (None, s1, w1)"
    and "run_actions s1 (a # post) w1 = (Some (NewError c m), s2, w2)"
  shows "ExecutePlan unmarshal s p w = (None, Some (errorResponse c m), s2, w2)"
proof -
  have "run_actions s (pre @ a # post) w = (Some (NewError c m), s2, w2)"
    using run_actions_append [OF assms(4), of "a # post"] assms(5) by simp
  then show ?thesis
    using assms(1-3)
    by (simp add: ExecutePlan_runs [where unmarshal = unmarshal and p = p and raw = raw
          and plan = "pre @ a # post"] NewError_def)
qed

lemma name_lowered:
  "ToLower diaeresis_table name_upper = name_lower"
  "ToLower diaeresis_table name_lower = name_lower"
  by code_simp+

lemma names_differ: "\<not> ascii_fold_eq name_upper name_lower"
  by (simp add: ascii_fold_eq_def name_upper_def name_lower_def same_letter_def)

lemma captures_errorResponse: "captures c (None, Some (errorResponse c m), s, w)"
  by (simp add: captures_def captured_errorResponse)

lemma envelops_ExecutePlan: "envelops (ExecutePlan unmarshal s p w)"
  using ExecutePlan_enveloped [of unmarshal s p w] by (auto simp: envelops_def)

lemma envelops_CallTool: "envelops (CallTool s args w)"
  using CallTool_enveloped [of s args w] by (auto simp: envelops_def)

lemma call_handler_error:
  "fst (invoke h params w) = Some err \<Longrightarrow>
   \<exists>s' w'. call_handler h params s w = (Some err, s', w')"
  by (cases "invoke h params w") (auto simp: call_handler_def)

lemma ExecutePlan_step_captured:
  assumes "p \<noteq> []" and "unmarshal p = Inr raw" and "plan_of_raw raw = Inr (pre @ a # post)"
    and "run_actions s pre w = (None, s1, w1)"
    and "run_actions s1 (a # post) w1 = (Some (NewError c m), s2, w2)"
  shows "captures c (ExecutePlan unmarshal s p w)"
  using ExecutePlan_step_failure
          [where unmarshal = unmarshal and p = p and raw = raw and pre = pre and a = a
             and post = post, OF assms]
  by (simp add: captures_errorResponse)

lemma CallTool_unknown_captured:
  "map_of (tools s) (ToolName args) = None \<Longrightarrow> captures (- 32601) (CallTool s args w)"
  by (simp add: CallTool_def captures_errorResponse)

lemma CallTool_error_captured:
  assumes "map_of (tools s) (ToolName args) = Some tool"
    and "fst (invoke (Handler tool) (Parameters args) w) = Some err"
  shows "captures (- 32000) (CallTool s args w)"
proof -
  obtain s' w' where "call_handler (Handler tool) (Parameters args) s w = (Some err, s', w')"
    using call_handler_error [OF assms(2)] by blast
  then show ?thesis using assms(1) by (simp add: CallTool_def captures_errorResponse)
qed

section \<open>Failures and the envelope\<close>

text \<open>
  Claim C1, as amended. \<open>ExecutePlan\<close> and \<open>CallTool\<close> always return a nil Go error
  and a well-formed response, and every failure they meet sets the error field of that
  response: an empty plan text (\<open>-32602\<close>), a text that does not decode or decodes to
  the wrong shape (\<open>-32700\<close>), a plan without actions (\<open>-32602\<close>), and, at the first
  step that fails after the steps \<open>pre\<close> have run, an action that is missing, no
  string or empty (\<open>-32602\<close>), an action that names no tool (\<open>-32601\<close>) and a handler
  that returns an error (\<open>-32000\<close>); for \<open>CallTool\<close>, an unknown tool (\<open>-32601\<close>)
  and a handler error (\<open>-32000\<close>). \<open>ProcessInstruction\<close> returns the Go error and the
  reply of \<open>ExecutePlan\<close> on the plan text the model call produced, so these failures
  are captured in the same way; but when the model call fails it returns a Go error
  and writes no response.
\<close>

theorem dispatcher_failures_enveloped:
  "envelops (ExecutePlan unmarshal s p w) \<and>
   (p = [] \<longrightarrow> captures (- 32602) (ExecutePlan unmarshal s p w)) \<and>
   (p \<noteq> [] \<and> unmarshal p = Inl e \<longrightarrow> captures (- 32700) (ExecutePlan unmarshal s p w)) \<and>
   (p \<noteq> [] \<and> unmarshal p = Inr raw \<and> plan_of_raw raw = Inl msg \<longrightarrow>
      captures (- 32700) (ExecutePlan unmarshal s p w)) \<and>
   (p \<noteq> [] \<and> unmarshal p = Inr raw \<and> plan_of_raw raw = Inr [] \<longrightarrow>
      captures (- 32602) (ExecutePlan unmarshal s p w)) \<and>
   (p \<noteq> [] \<and> unmarshal p = Inr raw \<and> plan_of_raw raw = Inr (pre @ a # post) \<and>
    run_actions s pre w = (None, s1, w1) \<longrightarrow>
      ((\<forall>n. map_of a ''action'' \<noteq> Some (JString n)) \<or> map_of a ''action'' = Some (JString [])
         \<longrightarrow> captures (- 32602) (ExecutePlan unmarshal s p w)) \<and>
      (map_of a ''action'' = Some (JString name) \<and> name \<noteq> [] \<and>
       map_of (tools s1) (strip_functions name) = None
         \<longrightarrow> captures (- 32601) (ExecutePlan unmarshal s p w)) \<and>
      (map_of a ''action'' = Some (JString name) \<and> name \<noteq> [] \<and>
       map_of (tools s1) (strip_functions name) = Some tool \<and>
       fst (invoke (Handler tool) (action_parameters a) w1) = Some err
         \<longrightarrow> captures (- 32000) (ExecutePlan unmarshal s p w))) \<and>
   envelops (CallTool s args w) \<and>
   (map_of (tools s) (ToolName args) = None \<longrightarrow> captures (- 32601) (CallTool s args w)) \<and>
   (map_of (tools s) (ToolName args) = Some tool' \<and>
    fst (invoke (Handler tool') (Parameters args) w) = Some err'
      \<longrightarrow> captures (- 32000) (CallTool s args w)) \<and>
   (if model_call_fails caseTable llm universal s ov i w
    then fst (ProcessInstruction caseTable unmarshal llm universal s ov i w) \<noteq> None \<and>
         fst (snd (ProcessInstruction caseTable unmarshal llm universal s ov i w)) = None
    else envelops (ProcessInstruction caseTable unmarshal llm universal s ov i w)) \<and>
   (\<not> IsListServicesQuery caseTable (ToLower caseTable i) \<and>
    \<not> IsListToolsQuery caseTable (ToLower caseTable i) \<and>
    CallLLM unmarshal llm universal s (GetSystemPrompt universal ov) i w = (None, plan, s2, w2)
      \<longrightarrow>
      fst (ProcessInstruction caseTable unmarshal llm universal s ov i w) =
        fst (ExecutePlan unmarshal s2 (case plan of None \<Rightarrow> [] | Some t \<Rightarrow> t) w2) \<and>
      fst (snd (ProcessInstruction caseTable unmarshal llm universal s ov i w)) =
        fst (snd (ExecutePlan unmarshal s2 (case plan of None \<Rightarrow> [] | Some t \<Rightarrow> t) w2)))"
proof -
  let ?EP = "ExecutePlan unmarshal s p w"
  let ?PI = "ProcessInstruction caseTable unmarshal llm universal s ov i w"
  have e1: "p = [] \<longrightarrow> captures (- 32602) ?EP"
    by (simp add: ExecutePlan_empty_string captures_errorResponse)
  have e2: "p \<noteq> [] \<and> unmarshal p = Inl e \<longrightarrow> captures (- 32700) ?EP"
    by (simp add: ExecutePlan_parse_error [where unmarshal = unmarshal and p = p]
        captures_errorResponse)
  have e3: "p \<noteq> [] \<and> unmarshal p = Inr raw \<and> plan_of_raw raw = Inl msg \<longrightarrow>
      captures (- 32700) ?EP"
    by (simp add: ExecutePlan_bad_shape [where unmarshal = unmarshal and p = p and raw = raw]
        captures_errorResponse)
  have e4: "p \<noteq> [] \<and> unmarshal p = Inr raw \<and> plan_of_raw raw = Inr [] \<longrightarrow>
      captures (- 32602) ?EP"
    by (simp add: ExecutePlan_no_actions [where unmarshal = unmarshal and p = p and raw = raw]
        captures_errorResponse)
  have e5: "((\<forall>n. map_of a ''action'' \<noteq> Some (JString n)) \<or> map_of a ''action'' = Some (JString [])
         \<longrightarrow> captures (- 32602) ?EP) \<and>
      (map_of a ''action'' = Some (JString name) \<and> name \<noteq> [] \<and>
       map_of (tools s1) (strip_functions name) = None
         \<longrightarrow> captures (- 32601) ?EP) \<and>
      (map_of a ''action'' = Some (JString name) \<and> name \<noteq> [] \<and>
       map_of (tools s1) (strip_functions name) = Some tool \<and>
       fst (invoke (Handler tool) (action_parameters a) w1) = Some err
         \<longrightarrow> captures (- 32000) ?EP)"
    if h: "p \<noteq> []" "unmarshal p = Inr raw" "plan_of_raw raw = Inr (pre @ a # post)"
      "run_actions s pre w = (None, s1, w1)"
  proof (intro conjI impI)
    assume "(\<forall>n. map_of a ''action'' \<noteq> Some (JString n)) \<or> map_of a ''action'' = Some (JString [])"
    from run_actions_invalid [OF this, of s1 post w1]
    show "captures (- 32602) ?EP"
      by (rule ExecutePlan_step_captured
            [where unmarshal = unmarshal and p = p and raw = raw and pre = pre and a = a
               and post = post, OF h])
  next
    assume "map_of a ''action'' = Some (JString name) \<and> name \<noteq> [] \<and>
       map_of (tools s1) (strip_functions name) = None"
    then have "run_actions s1 (a # post) w1 =
       (Some (NewError (- 32601) (''unknown action: '' @ strip_functions name)), s1, w1)"
      using run_actions_unknown [of a name s1 post w1] by simp
    then show "captures (- 32601) ?EP"
      by (rule ExecutePlan_step_captured
            [where unmarshal = unmarshal and p = p and raw = raw and pre = pre and a = a
               and post = post, OF h])
  next
    assume k: "map_of a ''action'' = Some (JString name) \<and> name \<noteq> [] \<and>
       map_of (tools s1) (strip_functions name) = Some tool \<and>
       fst (invoke (Handler tool) (action_parameters a) w1) = Some err"
    then obtain s' w' where
      "call_handler (Handler tool) (action_parameters a) s1 w1 = (Some err, s', w')"
      using call_handler_error [of "Handler tool" "action_parameters a" w1 err s1] by blast
    then have "run_actions s1 (a # post) w1 =
       (Some (NewError (- 32000)
          (''failed to execute tool '' @ strip_functions name @ '': '' @ err)), s', w')"
      using k run_actions_handler_error [of a name s1 tool w1 err s' w' post] by simp
    then show "captures (- 32000) ?EP"
      by (rule ExecutePlan_step_captured
            [where unmarshal = unmarshal and p = p and raw = raw and pre = pre and a = a
               and post = post, OF h])
  qed
  have t1: "map_of (tools s) (ToolName args) = None \<longrightarrow> captures (- 32601) (CallTool s args w)"
    by (simp add: CallTool_unknown_captured)
  have t2: "map_of (tools s) (ToolName args) = Some tool' \<and>
    fst (invoke (Handler tool') (Parameters args) w) = Some err'
      \<longrightarrow> captures (- 32000) (CallTool s args w)"
    using CallTool_error_captured [of s args tool' w err'] by blast
  have p1: "if model_call_fails caseTable llm universal s ov i w
    then fst ?PI \<noteq> None \<and> fst (snd ?PI) = None else envelops ?PI"
  proof (cases "IsListServicesQuery caseTable (ToLower caseTable i) \<or>
                IsListToolsQuery caseTable (ToLower caseTable i)")
    case True
    then have "\<not> model_call_fails caseTable llm universal s ov i w"
      by (auto simp: model_call_fails_def)
    then show ?thesis
      using ProcessInstruction_listing [OF True, of unmarshal llm universal s ov w]
      by (auto simp: envelops_def enveloped_resultResponse)
  next
    case False
    then have q: "\<not> IsListServicesQuery caseTable (ToLower caseTable i)"
      "\<not> IsListToolsQuery caseTable (ToLower caseTable i)" by auto
    note pi = ProcessInstruction_planning [OF q, of unmarshal llm universal s ov w]
    obtain e' pl sa wa where
      c: "CallLLM unmarshal llm universal s (GetSystemPrompt universal ov) i w
            = (e', pl, sa, wa)"
      by (cases "CallLLM unmarshal llm universal s (GetSystemPrompt universal ov) i w") auto
    have f: "model_call_fails caseTable llm universal s ov i w \<longleftrightarrow> e' \<noteq> None"
      using CallLLM_error_iff [of unmarshal llm universal s "GetSystemPrompt universal ov" i w]
        q c
      by (simp add: model_call_fails_def)
    show ?thesis
    proof (cases e')
      case None
      obtain r sb wb where
        ep: "ExecutePlan unmarshal sa (case pl of None \<Rightarrow> [] | Some p \<Rightarrow> p) wa
               = (None, Some r, sb, wb)" "enveloped None (Some r)"
        using ExecutePlan_enveloped
                [of unmarshal sa "case pl of None \<Rightarrow> [] | Some p \<Rightarrow> p" wa]
        by blast
      show ?thesis using None f by (simp add: pi c ep envelops_def)
    next
      case (Some err)
      then show ?thesis using f by (simp add: pi c)
    qed
  qed
  have p2: "fst ?PI = fst (ExecutePlan unmarshal s2 (case plan of None \<Rightarrow> [] | Some t \<Rightarrow> t) w2) \<and>
      fst (snd ?PI) =
        fst (snd (ExecutePlan unmarshal s2 (case plan of None \<Rightarrow> [] | Some t \<Rightarrow> t) w2))"
    if q: "\<not> IsListServicesQuery caseTable (ToLower caseTable i)"
      "\<not> IsListToolsQuery caseTable (ToLower caseTable i)"
      and c: "CallLLM unmarshal llm universal s (GetSystemPrompt universal ov) i w
                = (None, plan, s2, w2)"
  proof -
    obtain r sb wb where
      ep: "ExecutePlan unmarshal s2 (case plan of None \<Rightarrow> [] | Some t \<Rightarrow> t) w2
             = (None, Some r, sb, wb)"
      using ExecutePlan_enveloped
              [of unmarshal s2 "case plan of None \<Rightarrow> [] | Some t \<Rightarrow> t" w2]
      by blast
    show ?thesis
      by (simp add: ProcessInstruction_planning [OF q] c ep)
  qed
  have e5': "p \<noteq> [] \<and> unmarshal p = Inr raw \<and> plan_of_raw raw = Inr (pre @ a # post) \<and>
    run_actions s pre w = (None, s1, w1) \<longrightarrow>
      ((\<forall>n. map_of a ''action'' \<noteq> Some (JString n)) \<or> map_of a ''action'' = Some (JString [])
         \<longrightarrow> captures (- 32602) ?EP) \<and>
      (map_of a ''action'' = Some (JString name) \<and> name \<noteq> [] \<and>
       map_of (tools s1) (strip_functions name) = None
         \<longrightarrow> captures (- 32601) ?EP) \<and>
      (map_of a ''action'' = Some (JString name) \<and> name \<noteq> [] \<and>
       map_of (tools s1) (strip_functions name) = Some tool \<and>
       fst (invoke (Handler tool) (action_parameters a) w1) = Some err
         \<longrightarrow> captures (- 32000) ?EP)"
    using e5 by (intro impI) (elim conjE, assumption+)
  have p2': "\<not> IsListServicesQuery caseTable (ToLower caseTable i) \<and>
    \<not> IsListToolsQuery caseTable (ToLower caseTable i) \<and>
    CallLLM unmarshal llm universal s (GetSystemPrompt universal ov) i w = (None, plan, s2, w2)
      \<longrightarrow>
      fst ?PI = fst (ExecutePlan unmarshal s2 (case plan of None \<Rightarrow> [] | Some t \<Rightarrow> t) w2) \<and>
      fst (snd ?PI) =
        fst (snd (ExecutePlan unmarshal s2 (case plan of None \<Rightarrow> [] | Some t \<Rightarrow> t) w2))"
    using p2 by (intro impI) (elim conjE, assumption+)
  show ?thesis
    by (intro conjI envelops_ExecutePlan e1 e2 e3 e4 e5' envelops_CallTool t1 t2 p1 p2')
qed

text \<open>
  Every class of failure of the theorem at a concrete server, with its code.
\<close>

theorem dispatcher_failures_enveloped_witness:
  "captures (- 32602) (ExecutePlan (table_unmarshal example_docs) example_server [] []) \<and>
   captures (- 32700) (ExecutePlan (table_unmarshal example_docs) example_server ''pull it'' []) \<and>
   captures (- 32700) (ExecutePlan (table_unmarshal example_docs) example_server ''42'' []) \<and>
   captures (- 32602) (ExecutePlan (table_unmarshal example_docs) example_server ''[]'' []) \<and>
   captures (- 32602)
     (ExecutePlan (table_unmarshal prefix_docs) example_server plan_empty_action []) \<and>
   captures (- 32601)
     (ExecutePlan (table_unmarshal plan_docs) example_server plan_pull_b_pull []) \<and>
   captures (- 32000) (ExecutePlan (table_unmarshal plan_docs) example_server plan_a_b []) \<and>
   captures (- 32601) (CallTool example_server \<lparr>ToolName = ''zzz'', Parameters = None\<rparr> []) \<and>
   captures (- 32000) (CallTool example_server \<lparr>ToolName = ''a'', Parameters = None\<rparr> []) \<and>
   model_call_fails diaeresis_table unreachable_llm ''You make plans.'' example_server []
     ''pull the mysql image'' [] \<and>
   fst (snd (ProcessInstruction diaeresis_table (table_unmarshal plan_docs) unreachable_llm
     ''You make plans.'' example_server [] ''pull the mysql image'' [])) = None \<and>
   \<not> model_call_fails diaeresis_table (answering_llm plan_a_b) ''You make plans.''
     example_server [] ''run the plan'' [] \<and>
   envelops (ProcessInstruction diaeresis_table (table_unmarshal plan_docs)
     (answering_llm plan_a_b) ''You make plans.'' example_server [] ''run the plan'' []) \<and>
   fst (snd (ProcessInstruction diaeresis_table (table_unmarshal plan_docs)
     (answering_llm plan_a_b) ''You make plans.'' example_server [] ''run the plan'' [])) =
     fst (snd (ExecutePlan (table_unmarshal plan_docs) example_server plan_a_b [''llm'']))"
proof -
  have srv: "tools example_server =
      [(''a'', \<lparr>Name = ''a'', Description = ''Always fails'', InputSchema = None,
               Handler = failing_handler ''a'', ServiceName = []\<rparr>),
       (''pull_image'', \<lparr>Name = ''pull_image'', Description = ''Pull an image'',
               InputSchema = None, Handler = logging_handler ''pull_image'',
               ServiceName = []\<rparr>)]"
    by (simp add: example_server_def RegisterTool_def emptyServer_def)
  have c1: "captures (- 32602) (ExecutePlan (table_unmarshal example_docs) example_server [] [])"
    using dispatcher_failures_enveloped
            [where unmarshal = "table_unmarshal example_docs" and s = example_server
               and p = "[]" and w = "[]", THEN conjunct2, THEN conjunct1]
    by simp
  have h2: "''pull it'' \<noteq> [] \<and> table_unmarshal example_docs ''pull it'' = Inl ''invalid character''"
    by (simp add: table_unmarshal_def example_docs_def)
  have c2: "captures (- 32700)
      (ExecutePlan (table_unmarshal example_docs) example_server ''pull it'' [])"
    using dispatcher_failures_enveloped
            [where unmarshal = "table_unmarshal example_docs" and s = example_server
               and p = "''pull it''" and w = "[]" and e = "''invalid character''",
             THEN conjunct2, THEN conjunct2, THEN conjunct1] h2
    by (rule mp)
  have h3: "''42'' \<noteq> [] \<and> table_unmarshal example_docs ''42'' = Inr (JNumber ''42'') \<and>
      plan_of_raw (JNumber ''42'') = Inl ''plan JSON is neither an object nor an array''"
    by (simp add: table_unmarshal_def example_docs_def)
  have c3: "captures (- 32700) (ExecutePlan (table_unmarshal example_docs) example_server ''42'' [])"
    using dispatcher_failures_enveloped
            [where unmarshal = "table_unmarshal example_docs" and s = example_server
               and p = "''42''" and w = "[]" and raw = "JNumber ''42''"
               and msg = "''plan JSON is neither an object nor an array''",
             THEN conjunct2, THEN conjunct2, THEN conjunct2, THEN conjunct1] h3
    by (rule mp)
  have h4: "''[]'' \<noteq> [] \<and> table_unmarshal example_docs ''[]'' = Inr (JArray []) \<and>
      plan_of_raw (JArray []) = Inr []"
    by (simp add: table_unmarshal_def example_docs_def)
  have c4: "captures (- 32602) (ExecutePlan (table_unmarshal example_docs) example_server ''[]'' [])"
    using dispatcher_failures_enveloped
            [where unmarshal = "table_unmarshal example_docs" and s = example_server
               and p = "''[]''" and w = "[]" and raw = "JArray []",
             THEN conjunct2, THEN conjunct2, THEN conjunct2, THEN conjunct2, THEN conjunct1] h4
    by (rule mp)
  have h5: "plan_empty_action \<noteq> [] \<and>
      table_unmarshal prefix_docs plan_empty_action =
        Inr (JArray [JObject [(''action'', JString [])]]) \<and>
      plan_of_raw (JArray [JObject [(''action'', JString [])]]) =
        Inr ([] @ [(''action'', JString [])] # []) \<and>
      run_actions example_server [] [] = (None, example_server, [])"
    by (simp add: table_unmarshal_def prefix_docs_def plan_pull_def plan_functions_pull_def
        plan_functions_functions_pull_def plan_functions_only_def plan_empty_action_def)
  have a5: "(\<forall>n. map_of [(''action'', JString [])] ''action'' \<noteq> Some (JString n)) \<or>
      map_of [(''action'', JString [])] ''action'' = Some (JString [])"
    by simp
  have c5: "captures (- 32602)
     (ExecutePlan (table_unmarshal prefix_docs) example_server plan_empty_action [])"
    using dispatcher_failures_enveloped
            [where unmarshal = "table_unmarshal prefix_docs" and s = example_server
               and p = plan_empty_action and w = "[]"
               and raw = "JArray [JObject [(''action'', JString [])]]"
               and pre = "[]" and a = "[(''action'', JString [])]" and post = "[]"
               and ?s1.0 = example_server and ?w1.0 = "[]",
             THEN conjunct2, THEN conjunct2, THEN conjunct2, THEN conjunct2, THEN conjunct2,
             THEN conjunct1, THEN mp, OF h5, THEN conjunct1] a5
    by (rule mp)
  have pre6: "run_actions example_server [[(''action'', JString ''pull_image'')]] [] =
      (None, example_server, [''pull_image''])"
    by (simp add: srv strip_functions_def logging_handler_def action_parameters_def
        call_handler_def register_all_def)
  have h6: "plan_pull_b_pull \<noteq> [] \<and>
      table_unmarshal plan_docs plan_pull_b_pull =
        Inr (JArray [JObject [(''action'', JString ''pull_image'')],
                     JObject [(''action'', JString ''functions.b'')],
                     JObject [(''action'', JString ''pull_image'')]]) \<and>
      plan_of_raw (JArray [JObject [(''action'', JString ''pull_image'')],
                     JObject [(''action'', JString ''functions.b'')],
                     JObject [(''action'', JString ''pull_image'')]]) =
        Inr ([[(''action'', JString ''pull_image'')]] @ [(''action'', JString ''functions.b'')]
               # [[(''action'', JString ''pull_image'')]]) \<and>
      run_actions example_server [[(''action'', JString ''pull_image'')]] [] =
        (None, example_server, [''pull_image''])"
    using pre6
    by (simp add: table_unmarshal_def plan_docs_def plan_pull_b_pull_def plan_a_b_def
        plan_reg_b_def)
  have a6: "map_of [(''action'', JString ''functions.b'')] ''action'' =
        Some (JString ''functions.b'') \<and> ''functions.b'' \<noteq> [] \<and>
      map_of (tools example_server) (strip_functions ''functions.b'') = None"
    by (simp add: srv strip_functions_def TrimPrefix_def)
  have c6: "captures (- 32601)
     (ExecutePlan (table_unmarshal plan_docs) example_server plan_pull_b_pull [])"
    using dispatcher_failures_enveloped
            [where unmarshal = "table_unmarshal plan_docs" and s = example_server
               and p = plan_pull_b_pull and w = "[]"
               and raw = "JArray [JObject [(''action'', JString ''pull_image'')],
                     JObject [(''action'', JString ''functions.b'')],
                     JObject [(''action'', JString ''pull_image'')]]"
               and pre = "[[(''action'', JString ''pull_image'')]]"
               and a = "[(''action'', JString ''functions.b'')]"
               and post = "[[(''action'', JString ''pull_image'')]]"
               and ?s1.0 = example_server and ?w1.0 = "[''pull_image'']"
               and name = "''functions.b''",
             THEN conjunct2, THEN conjunct2, THEN conjunct2, THEN conjunct2, THEN conjunct2,
             THEN conjunct1, THEN mp, OF h6, THEN conjunct2, THEN conjunct1] a6
    by (rule mp)
  have h7: "plan_a_b \<noteq> [] \<and>
      table_unmarshal plan_docs plan_a_b =
        Inr (JArray [JObject [(''action'', JString ''a'')],
                     JObject [(''action'', JString ''b'')]]) \<and>
      plan_of_raw (JArray [JObject [(''action'', JString ''a'')],
                     JObject [(''action'', JString ''b'')]]) =
        Inr ([] @ [(''action'', JString ''a'')] # [[(''action'', JString ''b'')]]) \<and>
      run_actions example_server [] [] = (None, example_server, [])"
    by (simp add: table_unmarshal_def plan_docs_def plan_a_b_def)
  have a7: "map_of [(''action'', JString ''a'')] ''action'' = Some (JString ''a'') \<and> ''a'' \<noteq> [] \<and>
      map_of (tools example_server) (strip_functions ''a'') =
        Some \<lparr>Name = ''a'', Description = ''Always fails'', InputSchema = None,
               Handler = failing_handler ''a'', ServiceName = []\<rparr> \<and>
      fst (invoke (Handler \<lparr>Name = ''a'', Description = ''Always fails'', InputSchema = None,
               Handler = failing_handler ''a'', ServiceName = []\<rparr>)
             (action_parameters [(''action'', JString ''a'')]) []) = Some ''boom''"
    by (simp add: srv strip_functions_def failing_handler_def)
  have c7: "captures (- 32000) (ExecutePlan (table_unmarshal plan_docs) example_server plan_a_b [])"
    using dispatcher_failures_enveloped
            [where unmarshal = "table_unmarshal plan_docs" and s = example_server
               and p = plan_a_b and w = "[]"
               and raw = "JArray [JObject [(''action'', JString ''a'')],
                     JObject [(''action'', JString ''b'')]]"
               and pre = "[]" and a = "[(''action'', JString ''a'')]"
               and post = "[[(''action'', JString ''b'')]]"
               and ?s1.0 = example_server and ?w1.0 = "[]" and name = "''a''"
               and tool = "\<lparr>Name = ''a'', Description = ''Always fails'', InputSchema = None,
                          Handler = failing_handler ''a'', ServiceName = []\<rparr>"
               and err = "''boom''",
             THEN conjunct2, THEN conjunct2, THEN conjunct2, THEN conjunct2, THEN conjunct2,
             THEN conjunct1, THEN mp, OF h7, THEN conjunct2, THEN conjunct2] a7
    by (rule mp)
  have h8: "map_of (tools example_server) (ToolName \<lparr>ToolName = ''zzz'', Parameters = None\<rparr>) = None"
    by (simp add: srv)
  have c8: "captures (- 32601)
      (CallTool example_server \<lparr>ToolName = ''zzz'', Parameters = None\<rparr> [])"
    using dispatcher_failures_enveloped
            [where s = example_server and args = "\<lparr>ToolName = ''zzz'', Parameters = None\<rparr>"
               and w = "[]",
             THEN conjunct2, THEN conjunct2, THEN conjunct2, THEN conjunct2, THEN conjunct2,
             THEN conjunct2, THEN conjunct2, THEN conjunct1] h8
    by (rule mp)
  have h9: "map_of (tools example_server) (ToolName \<lparr>ToolName = ''a'', Parameters = None\<rparr>) =
        Some \<lparr>Name = ''a'', Description = ''Always fails'', InputSchema = None,
               Handler = failing_handler ''a'', ServiceName = []\<rparr> \<and>
      fst (invoke (Handler \<lparr>Name = ''a'', Description = ''Always fails'', InputSchema = None,
               Handler = failing_handler ''a'', ServiceName = []\<rparr>)
             (Parameters \<lparr>ToolName = ''a'', Parameters = None\<rparr>) []) = Some ''boom''"
    by (simp add: srv failing_handler_def)
  have c9: "captures (- 32000)
      (CallTool example_server \<lparr>ToolName = ''a'', Parameters = None\<rparr> [])"
    using dispatcher_failures_enveloped
            [where s = example_server and args = "\<lparr>ToolName = ''a'', Parameters = None\<rparr>"
               and w = "[]"
               and tool' = "\<lparr>Name = ''a'', Description = ''Always fails'', InputSchema = None,
                          Handler = failing_handler ''a'', ServiceName = []\<rparr>"
               and err' = "''boom''",
             THEN conjunct2, THEN conjunct2, THEN conjunct2, THEN conjunct2, THEN conjunct2,
             THEN conjunct2, THEN conjunct2, THEN conjunct2, THEN conjunct1] h9
    by (rule mp)
  have q: "\<not> IsListServicesQuery diaeresis_table (ToLower diaeresis_table ''run the plan'')"
      "\<not> IsListToolsQuery diaeresis_table (ToLower diaeresis_table ''run the plan'')"
      "\<not> IsListServicesQuery diaeresis_table (ToLower diaeresis_table ''pull the mysql image'')"
      "\<not> IsListToolsQuery diaeresis_table (ToLower diaeresis_table ''pull the mysql image'')"
    by (simp_all add: IsListServicesQuery_def IsListToolsQuery_def ToLower_def lower_byte_def
        is_ascii_def)
  have f: "model_call_fails diaeresis_table unreachable_llm ''You make plans.'' example_server []
       ''pull the mysql image'' []"
    using q by (simp add: model_call_fails_def unreachable_llm_def)
  have nf: "\<not> model_call_fails diaeresis_table (answering_llm plan_a_b) ''You make plans.''
       example_server [] ''run the plan'' []"
    by (simp add: model_call_fails_def answering_llm_def)
  have c10: "fst (snd (ProcessInstruction diaeresis_table (table_unmarshal plan_docs)
     unreachable_llm ''You make plans.'' example_server [] ''pull the mysql image'' [])) = None"
    using dispatcher_failures_enveloped
            [where caseTable = diaeresis_table and unmarshal = "table_unmarshal plan_docs"
               and llm = unreachable_llm and universal = "''You make plans.''"
               and s = example_server and ov = "[]" and i = "''pull the mysql image''"
               and w = "[]",
             THEN conjunct2, THEN conjunct2, THEN conjunct2, THEN conjunct2, THEN conjunct2,
             THEN conjunct2, THEN conjunct2, THEN conjunct2, THEN conjunct2, THEN conjunct1] f
    by simp
  have c11: "envelops (ProcessInstruction diaeresis_table (table_unmarshal plan_docs)
     (answering_llm plan_a_b) ''You make plans.'' example_server [] ''run the plan'' [])"
    using dispatcher_failures_enveloped
            [where caseTable = diaeresis_table and unmarshal = "table_unmarshal plan_docs"
               and llm = "answering_llm plan_a_b" and universal = "''You make plans.''"
               and s = example_server and ov = "[]" and i = "''run the plan''"
               and w = "[]",
             THEN conjunct2, THEN conjunct2, THEN conjunct2, THEN conjunct2, THEN conjunct2,
             THEN conjunct2, THEN conjunct2, THEN conjunct2, THEN conjunct2, THEN conjunct1] nf
    by simp
  have h12: "\<not> IsListServicesQuery diaeresis_table (ToLower diaeresis_table ''run the plan'') \<and>
      \<not> IsListToolsQuery diaeresis_table (ToLower diaeresis_table ''run the plan'') \<and>
      CallLLM (table_unmarshal plan_docs) (answering_llm plan_a_b) ''You make plans.''
        example_server (GetSystemPrompt ''You make plans.'' []) ''run the plan'' [] =
        (None, Some plan_a_b, example_server, [''llm''])"
    using q by (simp add: CallLLM_def answering_llm_def)
  have c12: "fst (snd (ProcessInstruction diaeresis_table (table_unmarshal plan_docs)
       (answering_llm plan_a_b) ''You make plans.'' example_server [] ''run the plan'' [])) =
     fst (snd (ExecutePlan (table_unmarshal plan_docs) example_server plan_a_b [''llm'']))"
    using dispatcher_failures_enveloped
            [where caseTable = diaeresis_table and unmarshal = "table_unmarshal plan_docs"
               and llm = "answering_llm plan_a_b" and universal = "''You make plans.''"
               and s = example_server and ov = "[]" and i = "''run the plan''"
               and w = "[]" and plan = "Some plan_a_b" and ?s2.0 = example_server
               and ?w2.0 = "[''llm'']",
             THEN conjunct2, THEN conjunct2, THEN conjunct2, THEN conjunct2, THEN conjunct2,
             THEN conjunct2, THEN conjunct2, THEN conjunct2, THEN conjunct2, THEN conjunct2,
             THEN mp, OF h12]
    by simp
  show ?thesis
    by (intro conjI c1 c2 c3 c4 c5 c6 c7 c8 c9 f c10 nf c11 c12)
qed

text \<open>
  The claim as stated fails where the model call fails: \<open>ProcessInstruction\<close> returns a
  Go error and no response at all, so nothing is captured in an error field.
\<close>

theorem model_call_failure_counterexample:
  "ProcessInstruction diaeresis_table (table_unmarshal plan_docs) unreachable_llm
       ''You make plans.'' example_server [] ''pull the mysql image'' [] =
     (Some ''ProcessInstruction: failed to call LLM: LLM API error: connection refused'',
      None, [], example_server, [''llm''])"
  by (simp add: ProcessInstruction_def IsListServicesQuery_def IsListToolsQuery_def ToLower_def
      lower_byte_def is_ascii_def CallLLM_def unreachable_llm_def GetSystemPrompt_def)

section \<open>A plan step that names no registered tool\<close>

text \<open>
  Claim C2, as amended. Let the plan consist of the steps \<open>pre\<close>, then the step \<open>a\<close>,
  then the steps \<open>post\<close>. If the steps of \<open>pre\<close> run without error, taking the server
  from \<open>s\<close> to \<open>s1\<close> and the world from \<open>w\<close> to \<open>w1\<close>, and the action of \<open>a\<close> is a
  non-empty string whose name, the prefix \<open>functions.\<close> stripped, is not a key of the
  tool map of \<open>s1\<close>, that is, of the catalogue as the handlers of \<open>pre\<close> have left
  it, then \<open>ExecutePlan\<close> returns error code \<open>-32601\<close> naming the stripped action and
  leaves the server at \<open>s1\<close> and the world at \<open>w1\<close>: the effects of \<open>pre\<close> stay, and
  no handler of \<open>a\<close> or of \<open>post\<close> has run.
\<close>

theorem ExecutePlan_unknown_action:
  assumes "p \<noteq> []" and "unmarshal p = Inr raw" and "plan_of_raw raw = Inr (pre @ a # post)"
    and "run_actions s pre w = (None, s1, w1)"
    and "map_of a ''action'' = Some (JString name)" and "name \<noteq> []"
    and "map_of (tools s1) (strip_functions name) = None"
  shows "ExecutePlan unmarshal s p w =
           (None, Some (errorResponse (- 32601) (''unknown action: '' @ strip_functions name)),
            s1, w1)"
  using assms(1-4) run_actions_unknown [OF assms(5-7), of post w1]
  by (rule ExecutePlan_step_failure
        [where unmarshal = unmarshal and p = p and raw = raw and pre = pre and a = a
           and post = post])

theorem ExecutePlan_unknown_action_witness:
  "run_actions example_server [[(''action'', JString ''pull_image'')]] [] =
     (None, example_server, [''pull_image'']) \<and>
   map_of (tools example_server) (strip_functions ''functions.b'') = None \<and>
   ExecutePlan (table_unmarshal plan_docs) example_server plan_pull_b_pull [] =
     (None, Some (errorResponse (- 32601) ''unknown action: b''), example_server,
      [''pull_image''])"
proof -
  have ne: "plan_pull_b_pull \<noteq> []" by (simp add: plan_pull_b_pull_def)
  have u: "table_unmarshal plan_docs plan_pull_b_pull =
      Inr (JArray [JObject [(''action'', JString ''pull_image'')],
                 JObject [(''action'', JString ''functions.b'')],
                 JObject [(''action'', JString ''pull_image'')]])"
    by (simp add: table_unmarshal_def plan_docs_def plan_pull_b_pull_def plan_a_b_def
        plan_reg_b_def)
  have pl: "plan_of_raw (JArray [JObject [(''action'', JString ''pull_image'')],
                 JObject [(''action'', JString ''functions.b'')],
                 JObject [(''action'', JString ''pull_image'')]]) =
         Inr ([[(''action'', JString ''pull_image'')]] @ [(''action'', JString ''functions.b'')]
                # [[(''action'', JString ''pull_image'')]])"
    by simp
  have sf: "strip_functions ''functions.b'' = ''b''"
    by (simp add: strip_functions_def TrimPrefix_def)
  have pre: "run_actions example_server [[(''action'', JString ''pull_image'')]] [] =
      (None, example_server, [''pull_image''])"
    by (simp add: example_server_def RegisterTool_def emptyServer_def strip_functions_def
        logging_handler_def action_parameters_def call_handler_def register_all_def)
  have a: "map_of [(''action'', JString ''functions.b'')] ''action'' = Some (JString ''functions.b'')"
    by simp
  have n: "''functions.b'' \<noteq> []" by simp
  have un: "map_of (tools example_server) (strip_functions ''functions.b'') = None"
    by (simp add: sf example_server_def RegisterTool_def emptyServer_def)
  show ?thesis
    using ExecutePlan_unknown_action
        [where unmarshal = "table_unmarshal plan_docs" and p = plan_pull_b_pull
           and pre = "[[(''action'', JString ''pull_image'')]]"
           and a = "[(''action'', JString ''functions.b'')]"
           and post = "[[(''action'', JString ''pull_image'')]]", OF ne u pl pre a n un]
      pre un
    by (simp add: sf)
qed

text \<open>
  As stated, the claim asks neither that the earlier steps succeed nor that they leave
  the catalogue alone. When the handler of an earlier step fails, the plan stops there
  with code \<open>-32000\<close> and the unregistered step is never reached. When the handler of
  an earlier step registers the missing tool through the registry it is handed, the
  step is found and run.
\<close>

theorem ExecutePlan_earlier_failure_counterexample:
  "map_of (tools example_server) ''a'' \<noteq> None \<and> map_of (tools example_server) ''b'' = None \<and>
   ExecutePlan (table_unmarshal plan_docs) example_server plan_a_b [] =
     (None, Some (errorResponse (- 32000) ''failed to execute tool a: boom''), example_server,
      [''a'']) \<and>
   map_of (tools registering_server) ''reg'' \<noteq> None \<and>
   map_of (tools registering_server) ''b'' = None \<and>
   fst (snd (ExecutePlan (table_unmarshal plan_docs) registering_server plan_reg_b [])) =
     Some (resultResponse (Marshal_status ''Plan executed successfully'')) \<and>
   snd (snd (snd (ExecutePlan (table_unmarshal plan_docs) registering_server plan_reg_b []))) =
     [''reg'', ''b'']"
  by (simp add: ExecutePlan_def table_unmarshal_def plan_docs_def plan_a_b_def plan_reg_b_def
      example_server_def registering_server_def registering_handler_def
      RegisterTool_def emptyServer_def strip_functions_def logging_handler_def
      failing_handler_def action_parameters_def NewError_def call_handler_def register_all_def)

section \<open>Empty and malformed plans\<close>

text \<open>
  Claim C3. \<open>ExecutePlan\<close> returns normally (a nil Go error, the server and the world untouched) with
  error code \<open>-32602\<close> when the plan text is the empty string, decodes to the empty
  array, or decodes to an object without an \<open>action\<close> key. For a non-empty text that
  does not decode, or that decodes to a value that is neither an array nor an object,
  the error code is \<open>-32700\<close>.
\<close>

theorem ExecutePlan_empty_plan_codes:
  "(p = [] \<or> unmarshal p = Inr (JArray []) \<or>
      (\<exists>m. unmarshal p = Inr (JObject m) \<and> map_of m ''action'' = None)
    \<longrightarrow> (\<exists>msg. ExecutePlan unmarshal s p w = (None, Some (errorResponse (- 32602) msg), s, w)))
   \<and>
   (p \<noteq> [] \<and> ((\<exists>err. unmarshal p = Inl err) \<or>
                (\<exists>v. unmarshal p = Inr v \<and> (\<forall>a. v \<noteq> JArray a) \<and> (\<forall>m. v \<noteq> JObject m)))
    \<longrightarrow> (\<exists>msg. ExecutePlan unmarshal s p w = (None, Some (errorResponse (- 32700) msg), s, w)))"
proof (intro conjI impI)
  assume h: "p = [] \<or> unmarshal p = Inr (JArray []) \<or>
      (\<exists>m. unmarshal p = Inr (JObject m) \<and> map_of m ''action'' = None)"
  show "\<exists>msg. ExecutePlan unmarshal s p w = (None, Some (errorResponse (- 32602) msg), s, w)"
  proof (cases "p = []")
    case True
    then show ?thesis by (intro exI) (simp add: ExecutePlan_empty_string)
  next
    case False
    with h consider "unmarshal p = Inr (JArray [])"
      | m where "unmarshal p = Inr (JObject m)" "map_of m ''action'' = None" by blast
    then show ?thesis
    proof cases
      case 1
      then show ?thesis
        using False
        by (intro exI)
           (simp add: ExecutePlan_no_actions [where unmarshal = unmarshal and p = p
                and raw = "JArray []"])
    next
      case 2
      have "run_actions s [m] w = (Some (NewError (- 32602) ''invalid action format''), s, w)"
        using 2(2) by simp
      then show ?thesis
        using False 2
        by (intro exI)
           (simp add: ExecutePlan_runs [where unmarshal = unmarshal and p = p
                and raw = "JObject m" and plan = "[m]"] NewError_def)
    qed
  qed
next
  assume h: "p \<noteq> [] \<and> ((\<exists>err. unmarshal p = Inl err) \<or>
                (\<exists>v. unmarshal p = Inr v \<and> (\<forall>a. v \<noteq> JArray a) \<and> (\<forall>m. v \<noteq> JObject m)))"
  then have ne: "p \<noteq> []" by simp
  from h consider err where "unmarshal p = Inl err"
    | v where "unmarshal p = Inr v" "\<forall>a. v \<noteq> JArray a" "\<forall>m. v \<noteq> JObject m" by blast
  then show "\<exists>msg. ExecutePlan unmarshal s p w = (None, Some (errorResponse (- 32700) msg), s, w)"
  proof cases
    case 1
    then show ?thesis using ne
      by (intro exI)
         (simp add: ExecutePlan_parse_error [where unmarshal = unmarshal and p = p])
  next
    case 2
    then show ?thesis
      using ne plan_of_raw_neither [of v]
      by (intro exI)
         (simp add: ExecutePlan_bad_shape [where unmarshal = unmarshal and p = p and raw = v])
  qed
qed

theorem ExecutePlan_empty_plan_codes_witness:
  "(\<exists>msg. ExecutePlan (table_unmarshal example_docs) docker_server '''' [] = (None, Some (errorResponse (- 32602) msg), docker_server, [])) \<and>
   table_unmarshal example_docs ''[]'' = Inr (JArray []) \<and>
   (\<exists>msg. ExecutePlan (table_unmarshal example_docs) docker_server ''[]'' [] = (None, Some (errorResponse (- 32602) msg), docker_server, [])) \<and>
   table_unmarshal example_docs ''{}'' = Inr (JObject []) \<and>
   (\<exists>msg. ExecutePlan (table_unmarshal example_docs) docker_server ''{}'' [] = (None, Some (errorResponse (- 32602) msg), docker_server, [])) \<and>
   table_unmarshal example_docs ''pull it'' = Inl ''invalid character'' \<and>
   (\<exists>msg. ExecutePlan (table_unmarshal example_docs) docker_server ''pull it'' [] = (None, Some (errorResponse (- 32700) msg), docker_server, [])) \<and>
   table_unmarshal example_docs ''42'' = Inr (JNumber ''42'') \<and>
   (\<exists>msg. ExecutePlan (table_unmarshal example_docs) docker_server ''42'' [] = (None, Some (errorResponse (- 32700) msg), docker_server, []))"
proof -
  have a: "table_unmarshal example_docs ''[]'' = Inr (JArray [])"
    and b: "table_unmarshal example_docs ''{}'' = Inr (JObject [])"
    and c: "table_unmarshal example_docs ''pull it'' = Inl ''invalid character''"
    and d: "table_unmarshal example_docs ''42'' = Inr (JNumber ''42'')"
    by (simp_all add: table_unmarshal_def example_docs_def)
  note t = ExecutePlan_empty_plan_codes [where unmarshal = "table_unmarshal example_docs"
      and s = docker_server and w = "[]"]
  have 1: "\<exists>msg. ExecutePlan (table_unmarshal example_docs) docker_server '''' [] = (None, Some (errorResponse (- 32602) msg), docker_server, [])"
    using t [of "''''", THEN conjunct1] by simp
  have 2: "\<exists>msg. ExecutePlan (table_unmarshal example_docs) docker_server ''[]'' [] = (None, Some (errorResponse (- 32602) msg), docker_server, [])"
    using t [of "''[]''", THEN conjunct1] a by simp
  have 3: "\<exists>msg. ExecutePlan (table_unmarshal example_docs) docker_server ''{}'' [] = (None, Some (errorResponse (- 32602) msg), docker_server, [])"
    using t [of "''{}''", THEN conjunct1] b by simp
  have 4: "\<exists>msg. ExecutePlan (table_unmarshal example_docs) docker_server ''pull it'' [] = (None, Some (errorResponse (- 32700) msg), docker_server, [])"
    using t [of "''pull it''", THEN conjunct2] c by simp
  have 5: "\<exists>msg. ExecutePlan (table_unmarshal example_docs) docker_server ''42'' [] = (None, Some (errorResponse (- 32700) msg), docker_server, [])"
    using t [of "''42''", THEN conjunct2] d by simp
  show ?thesis using a b c d 1 2 3 4 5 by blast
qed

section \<open>Asking for the services\<close>

text \<open>
  On an instruction that the services predicate accepts, \<open>ProcessInstruction\<close> answers
  from the registry alone, whatever the model client is: the world and the prompt
  override are untouched. With at least one service registered the result is the JSON
  array of the service names.
\<close>

lemma ProcessInstruction_services_query:
  "IsListServicesQuery caseTable (ToLower caseTable instruction) \<Longrightarrow>
   ProcessInstruction caseTable unmarshal llm universal s ov instruction w =
     (None, Some (resultResponse (Marshal_strings (listServices s))), ov, s, w)"
  by (simp add: ProcessInstruction_def)

lemma services_query_array:
  "IsListServicesQuery caseTable (ToLower caseTable instruction) \<Longrightarrow> services s \<noteq> [] \<Longrightarrow>
   ProcessInstruction caseTable unmarshal llm universal s ov instruction w =
     (None, Some (resultResponse (JArray (map JString (map snd (services s))))), ov, s, w)"
  by (simp add: ProcessInstruction_services_query listServices_eq)

lemma what_services_are_available:
  "IsListServicesQuery caseTable (ToLower caseTable ''what services are available'')"
  by (simp add: IsListServicesQuery_def ToLower_def lower_byte_def is_ascii_def)

text \<open>
  A server just built by \<open>NewServer\<close> has no service, whatever the configuration
  file holds, and answers the question with \<open>null\<close>.
\<close>

lemma services_query_after_NewServer:
  assumes "NewServer apiKey openaiError homeDir loadConfig interp w0 = (Inr s, w1)"
  shows "ProcessInstruction caseTable unmarshal llm universal s ov ''what services are available'' w =
           (None, Some (resultResponse JNull), ov, s, w)"
  using NewServer_no_services [OF assms]
  by (simp add: ProcessInstruction_services_query [OF what_services_are_available]
      listServices_eq)

text \<open>
  Claim C4 at the registry without services (the one \<open>NewServer\<close> builds): the
  instruction \<open>what services are available\<close> is answered without the model, but the
  result is the JSON value \<open>null\<close> and not an array, since \<open>listServices\<close> returns
  the nil slice.
\<close>

theorem services_query_no_services_null:
  "IsListServicesQuery caseTable (ToLower caseTable ''what services are available'') \<and>
   services (emptyServer :: 'w Server) = [] \<and>
   ProcessInstruction caseTable unmarshal llm universal (emptyServer :: 'w Server) ov
       ''what services are available'' w =
     (None, Some (resultResponse JNull), ov, emptyServer, w)"
  by (simp add: what_services_are_available
      ProcessInstruction_services_query [OF what_services_are_available]
      listServices_eq emptyServer_def)

section \<open>Listing the tools of a service\<close>

text \<open>
  Claim C5, as amended. In every registry state (the keys of the tool map being
  distinct, as in any Go map) and for every query, \<open>listToolsForService\<close> returns the
  descriptions of exactly those registered tools whose \<open>ServiceName\<close> and the query
  have the same image under \<open>strings.ToLower\<close>. When the query and the service names
  of the registry are ASCII, these are the tools whose \<open>ServiceName\<close> equals the query
  up to ASCII case folding, one description for each. A tool whose \<open>ServiceName\<close> is
  \<open>Docker\<close> is returned for the queries \<open>docker\<close>, \<open>DOCKER\<close> and \<open>Docker\<close>, in
  every registry state.
\<close>

theorem listToolsForService_case_insensitive:
  assumes "distinct (map fst (tools s))"
  shows "set (elems (listToolsForService caseTable s q)) =
           {describe_tool t | t k.
              map_of (tools s) k = Some t \<and>
              ToLower caseTable (ServiceName t) = ToLower caseTable q}
         \<and> (list_all is_ascii q \<and> (\<forall>t \<in> snd ` set (tools s). list_all is_ascii (ServiceName t))
              \<longrightarrow>
              elems (listToolsForService caseTable s q) =
                map describe_tool
                  (filter (\<lambda>t. ascii_fold_eq (ServiceName t) q) (map snd (tools s))) \<and>
              set (elems (listToolsForService caseTable s q)) =
                {describe_tool t | t k.
                   map_of (tools s) k = Some t \<and> ascii_fold_eq (ServiceName t) q})
         \<and> (\<forall>k t. map_of (tools s) k = Some t \<and> ServiceName t = ''Docker'' \<longrightarrow>
               describe_tool t \<in> set (elems (listToolsForService caseTable s ''docker'')) \<and>
               describe_tool t \<in> set (elems (listToolsForService caseTable s ''DOCKER'')) \<and>
               describe_tool t \<in> set (elems (listToolsForService caseTable s ''Docker'')))"
proof -
  have graph: "\<And>t. (t \<in> snd ` set (tools s)) = (\<exists>k. map_of (tools s) k = Some t)"
    using assms by (force simp: image_iff)
  have main: "\<And>q. set (elems (listToolsForService caseTable s q)) =
           {describe_tool t | t k.
              map_of (tools s) k = Some t \<and>
              ToLower caseTable (ServiceName t) = ToLower caseTable q}"
    unfolding elems_listToolsForService using graph by auto
  have ascii: "elems (listToolsForService caseTable s q) =
                map describe_tool
                  (filter (\<lambda>t. ascii_fold_eq (ServiceName t) q) (map snd (tools s))) \<and>
              set (elems (listToolsForService caseTable s q)) =
                {describe_tool t | t k.
                   map_of (tools s) k = Some t \<and> ascii_fold_eq (ServiceName t) q}"
    if q: "list_all is_ascii q"
      and n: "\<forall>t \<in> snd ` set (tools s). list_all is_ascii (ServiceName t)"
  proof -
    have f: "filter (\<lambda>t. ToLower caseTable (ServiceName t) = ToLower caseTable q)
               (map snd (tools s)) =
             filter (\<lambda>t. ascii_fold_eq (ServiceName t) q) (map snd (tools s))"
      by (rule filter_cong [OF refl]) (use q n in \<open>auto simp: ToLower_ascii_eq_iff\<close>)
    have l: "elems (listToolsForService caseTable s q) =
                map describe_tool
                  (filter (\<lambda>t. ascii_fold_eq (ServiceName t) q) (map snd (tools s)))"
      by (simp only: elems_listToolsForService f)
    have "set (elems (listToolsForService caseTable s q)) =
                {describe_tool t | t k.
                   map_of (tools s) k = Some t \<and> ascii_fold_eq (ServiceName t) q}"
      unfolding l using graph by auto
    with l show ?thesis by simp
  qed
  have docker: "\<forall>k t. map_of (tools s) k = Some t \<and> ServiceName t = ''Docker'' \<longrightarrow>
               describe_tool t \<in> set (elems (listToolsForService caseTable s ''docker'')) \<and>
               describe_tool t \<in> set (elems (listToolsForService caseTable s ''DOCKER'')) \<and>
               describe_tool t \<in> set (elems (listToolsForService caseTable s ''Docker''))"
    unfolding main using ToLower_examples [of caseTable] by auto
  show ?thesis using main ascii docker by blast
qed

theorem listToolsForService_case_insensitive_witness:
  "distinct (map fst (tools docker_server)) \<and>
   list_all is_ascii ''DOCKER'' \<and>
   list_all (\<lambda>kt. list_all is_ascii (ServiceName (snd kt))) (tools docker_server) \<and>
   map_of (tools docker_server) ''pull_image'' =
     Some \<lparr>Name = ''pull_image'', Description = ''Pull an image'', InputSchema = None,
           Handler = logging_handler ''pull_image'', ServiceName = ''Docker''\<rparr> \<and>
   ascii_fold_eq ''Docker'' ''DOCKER'' \<and> \<not> ascii_fold_eq ''Git'' ''DOCKER'' \<and>
   ''pull_image: Pull an image''
     \<in> set (elems (listToolsForService diaeresis_table docker_server ''DOCKER'')) \<and>
   elems (listToolsForService diaeresis_table docker_server ''DOCKER'') =
     [''pull_image: Pull an image'']"
proof -
  let ?T = "\<lparr>Name = ''pull_image'', Description = ''Pull an image'', InputSchema = None,
           Handler = logging_handler ''pull_image'', ServiceName = ''Docker''\<rparr>"
  have d: "distinct (map fst (tools docker_server))"
    by (simp add: docker_server_def)
  have q: "list_all is_ascii ''DOCKER''"
    by (simp add: is_ascii_def)
  have n: "\<forall>t \<in> snd ` set (tools docker_server). list_all is_ascii (ServiceName t)"
    by (simp add: docker_server_def is_ascii_def)
  have n': "list_all (\<lambda>kt. list_all is_ascii (ServiceName (snd kt))) (tools docker_server)"
    by (simp add: docker_server_def is_ascii_def)
  have m: "map_of (tools docker_server) ''pull_image'' = Some ?T"
    by (simp add: docker_server_def)
  have fe: "ascii_fold_eq ''Docker'' ''DOCKER''" "\<not> ascii_fold_eq ''Git'' ''DOCKER''"
    by (simp_all add: ascii_fold_eq_def same_letter_def)
  have sn: "ServiceName ?T = ''Docker''" by simp
  note t = listToolsForService_case_insensitive [OF d, of diaeresis_table "''DOCKER''"]
  from t [THEN conjunct2, THEN conjunct2, rule_format, of "''pull_image''" ?T] m sn
  have mem: "describe_tool ?T
      \<in> set (elems (listToolsForService diaeresis_table docker_server ''DOCKER''))"
    by blast
  from t [THEN conjunct2, THEN conjunct1, rule_format, OF conjI [OF q n], THEN conjunct1]
  have "elems (listToolsForService diaeresis_table docker_server ''DOCKER'') =
          map describe_tool
            (filter (\<lambda>t. ascii_fold_eq (ServiceName t) ''DOCKER'') (map snd (tools docker_server)))" .
  then have ev: "elems (listToolsForService diaeresis_table docker_server ''DOCKER'') =
     [''pull_image: Pull an image'']"
    using fe by (simp add: docker_server_def describe_tool_def)
  show ?thesis using d q n' m fe mem ev by (simp add: describe_tool_def)
qed

text \<open>
  As stated, for every query string, the claim fails beyond ASCII:
  \<open>strings.ToLower\<close> lower-cases every letter of Unicode, so a tool whose service
  name is \<open>D\<close>, \<open>U+00D6\<close>, \<open>CKER\<close> is returned for the query \<open>d\<close>, \<open>U+00F6\<close>,
  \<open>cker\<close>, which differs from it by more than the case of ASCII letters.
\<close>

theorem listToolsForService_unicode_counterexample:
  "map (\<lambda>kt. ServiceName (snd kt)) (tools diaeresis_server) = [name_upper] \<and>
   \<not> ascii_fold_eq name_upper name_lower \<and>
   listToolsForService diaeresis_table diaeresis_server name_lower =
     Slice [''pull_image: Pull an image'']"
  using names_differ
  by (simp add: listToolsForService_def diaeresis_server_def name_lowered describe_tool_def)

section \<open>Disabled entries of the configuration\<close>

text \<open>
  Claim C6, as amended. The loader of servicestools.go does exactly what the loading
  algorithm does on the enabled tools of the enabled services, in their order: the
  outcome (error, registry and world) does not depend on any disabled service, on any
  tool of a disabled service or on any disabled tool, whose plugin reference is
  therefore never evaluated and cannot fail the load; and every key of the resulting
  tool map was a key before or is the name of such an enabled tool.
\<close>

theorem disabled_entries_skipped:
  assumes "loadConfig path = Inr cfg"
  shows "RegisterToolsFromConfig loadConfig interp r path w =
           load_each interp (enabled_tools cfg) r w \<and>
         fst ` set (tools (fst (snd (RegisterToolsFromConfig loadConfig interp r path w)))) \<subseteq>
           fst ` set (tools r) \<union> toolName ` set (enabled_tools cfg)"
proof -
  have eq: "RegisterToolsFromConfig loadConfig interp r path w =
           load_each interp (enabled_tools cfg) r w"
    using assms
    by (rule RegisterToolsFromConfig_eq_load_each
          [where loadConfig = loadConfig and path = path and cfg = cfg])
  obtain e r' w' where out: "load_each interp (enabled_tools cfg) r w = (e, r', w')"
    by (cases "load_each interp (enabled_tools cfg) r w") auto
  from load_each_keys [OF out] show ?thesis by (simp add: eq out)
qed

theorem disabled_entries_skipped_witness:
  "enabled_tools config_with_disabled =
     [tool_config ''pull_image'' True ''plugins/pull'',
      tool_config ''git_init'' True ''plugins/git_init''] \<and>
   fst (example_interp ''plugins/broken'' []) = ResolveError ''import not found'' \<and>
   fst (RegisterToolsFromConfig (\<lambda>path. Inr config_with_disabled) example_interp emptyServer
          ''plug.yaml'' []) = None \<and>
   map fst (tools (fst (snd (RegisterToolsFromConfig (\<lambda>path. Inr config_with_disabled)
          example_interp emptyServer ''plug.yaml'' [])))) = [''pull_image'', ''git_init''] \<and>
   snd (snd (RegisterToolsFromConfig (\<lambda>path. Inr config_with_disabled) example_interp
          emptyServer ''plug.yaml'' [])) = [''plugins/pull'', ''plugins/git_init'']"
proof -
  have en: "enabled_tools config_with_disabled =
     [tool_config ''pull_image'' True ''plugins/pull'',
      tool_config ''git_init'' True ''plugins/git_init'']"
    by (simp add: enabled_tools_def config_with_disabled_def tool_config_def)
  have run: "load_each example_interp
       [tool_config ''pull_image'' True ''plugins/pull'',
        tool_config ''git_init'' True ''plugins/git_init''] emptyServer [] =
     (None,
      RegisterTool ''git_init'' [] None (logging_handler ''plugins/git_init'')
        (RegisterTool ''pull_image'' [] None (logging_handler ''plugins/pull'') emptyServer),
      [''plugins/pull'', ''plugins/git_init''])"
    by (simp add: example_interp_def tool_config_def)
  from disabled_entries_skipped
         [where loadConfig = "\<lambda>path. Inr config_with_disabled" and path = "''plug.yaml''"
            and cfg = config_with_disabled and interp = example_interp and r = emptyServer
            and w = "[]", OF refl, THEN conjunct1]
  have "RegisterToolsFromConfig (\<lambda>path. Inr config_with_disabled) example_interp emptyServer
          ''plug.yaml'' [] =
     (None,
      RegisterTool ''git_init'' [] None (logging_handler ''plugins/git_init'')
        (RegisterTool ''pull_image'' [] None (logging_handler ''plugins/pull'') emptyServer),
      [''plugins/pull'', ''plugins/git_init''])"
    by (simp only: en run)
  then show ?thesis
    using en by (simp add: example_interp_def RegisterTool_def emptyServer_def)
qed

text \<open>
  As stated, for every configuration and the loader as such, the claim fails for the
  second loader. Its structs have no enabled field, so an entry that the file marks
  \<open>enabled: false\<close> is loaded like any other: a broken one fails the load, a good one
  is registered.
\<close>

theorem plugin_loader_ignores_enabled_counterexample:
  "entryEnabled (plugin_entry ''create_network'' False ''broken.so'') = False \<and>
   RegisterToolsFromConfig_plugin (\<lambda>path. Inr file_disabled_broken) example_plugin emptyServer
       ''plug.yaml'' [] =
     (Some ''failed to open plugin broken.so: file not found'', emptyServer, [''broken.so'']) \<and>
   fst (RegisterToolsFromConfig_plugin (\<lambda>path. Inr file_disabled_good) example_plugin emptyServer
       ''plug.yaml'' []) = None \<and>
   map fst (tools (fst (snd (RegisterToolsFromConfig_plugin (\<lambda>path. Inr file_disabled_good)
       example_plugin emptyServer ''plug.yaml'' [])))) = [''create_network''] \<and>
   snd (snd (RegisterToolsFromConfig_plugin (\<lambda>path. Inr file_disabled_good) example_plugin
       emptyServer ''plug.yaml'' [])) = [''network.so'']"
  by (simp add: RegisterToolsFromConfig_plugin_def loadConfig_plugin_def decodeFile_def
      decodeService_def file_disabled_broken_def file_disabled_good_def plugin_entry_def
      example_plugin_def RegisterTool_def emptyServer_def)

section \<open>A tool that fails to load\<close>

text \<open>
  Claim C7. Let the enabled tools of the enabled services be \<open>pre\<close>, then \<open>t\<close>, then
  \<open>post\<close>. If the tools of \<open>pre\<close> load, giving the registry \<open>r1\<close> and the world
  \<open>w1\<close>, and resolving \<open>t\<close> fails (the plugin cannot be evaluated, it has no
  \<open>Handler\<close>, or the handler has the wrong signature), then
  \<open>RegisterToolsFromConfig\<close> returns an error together with the registry \<open>r1\<close>, which
  holds every earlier key and the names of \<open>pre\<close>, and the world as the failed
  resolution of \<open>t\<close> left it: nothing of \<open>post\<close> is resolved or registered.
\<close>

theorem load_failure_aborts:
  assumes "loadConfig path = Inr cfg" and "enabled_tools cfg = pre @ t # post"
    and "load_each interp pre r w = (None, r1, w1)"
    and "interp (toolPlugin t) w1 = (res, w2)" and "\<forall>h. res \<noteq> Loaded h"
  shows "(\<exists>err. RegisterToolsFromConfig loadConfig interp r path w = (Some err, r1, w2)) \<and>
         fst ` set (tools r) \<union> toolName ` set pre \<subseteq> fst ` set (tools r1)"
proof -
  obtain err where "load_each interp (t # post) r1 w1 = (Some err, r1, w2)"
    using load_each_failure [where interp = interp and t = t and w = w1 and res = res
        and w' = w2 and post = post and r = r1] assms(4,5) by blast
  then have "load_each interp (pre @ t # post) r w = (Some err, r1, w2)"
    by (simp add: load_each_append assms(3))
  then have "RegisterToolsFromConfig loadConfig interp r path w = (Some err, r1, w2)"
    using assms(1,2)
    by (simp add: RegisterToolsFromConfig_eq_load_each
          [where loadConfig = loadConfig and path = path and cfg = cfg])
  then show ?thesis
    using load_each_success_keys [OF assms(3)] by blast
qed

theorem load_failure_aborts_witness:
  "enabled_tools config_with_mismatch =
     [tool_config ''pull_image'' True ''plugins/pull''] @
       tool_config ''run_container'' True ''plugins/badsig'' #
       [tool_config ''create_volume'' True ''plugins/volume''] \<and>
   example_interp ''plugins/badsig'' [''plugins/pull''] =
     (WrongSignature, [''plugins/pull'', ''plugins/badsig'']) \<and>
   RegisterToolsFromConfig (\<lambda>path. Inr config_with_mismatch) example_interp emptyServer
       ''plug.yaml'' [] =
     (Some ''handler for tool run_container does not have the correct signature'',
      RegisterTool ''pull_image'' [] None (logging_handler ''plugins/pull'') emptyServer,
      [''plugins/pull'', ''plugins/badsig'']) \<and>
   ''pull_image'' \<in> fst ` set (tools
      (RegisterTool ''pull_image'' [] None (logging_handler ''plugins/pull'') emptyServer))"
proof -
  let ?r1 = "RegisterTool ''pull_image'' [] None (logging_handler ''plugins/pull'') emptyServer"
  have en: "enabled_tools config_with_mismatch =
     [tool_config ''pull_image'' True ''plugins/pull''] @
       tool_config ''run_container'' True ''plugins/badsig'' #
       [tool_config ''create_volume'' True ''plugins/volume'']"
    by (simp add: enabled_tools_def config_with_mismatch_def tool_config_def)
  have pre: "load_each example_interp [tool_config ''pull_image'' True ''plugins/pull'']
               emptyServer [] = (None, ?r1, [''plugins/pull''])"
    by (simp add: example_interp_def tool_config_def)
  have bad: "example_interp (toolPlugin (tool_config ''run_container'' True ''plugins/badsig''))
               [''plugins/pull''] = (WrongSignature, [''plugins/pull'', ''plugins/badsig''])"
    by (simp add: example_interp_def tool_config_def)
  have nl: "\<forall>h. (WrongSignature :: string list Resolved) \<noteq> Loaded h" by simp
  note t = load_failure_aborts
      [where loadConfig = "\<lambda>path. Inr config_with_mismatch" and path = "''plug.yaml''"
         and cfg = config_with_mismatch and interp = example_interp and r = emptyServer
         and w = "[]" and pre = "[tool_config ''pull_image'' True ''plugins/pull'']"
         and t = "tool_config ''run_container'' True ''plugins/badsig''"
         and post = "[tool_config ''create_volume'' True ''plugins/volume'']"
         and ?r1.0 = ?r1 and ?w1.0 = "[''plugins/pull'']" and res = WrongSignature
         and ?w2.0 = "[''plugins/pull'', ''plugins/badsig'']", OF refl en pre bad nl]
  from t obtain err where
    out: "RegisterToolsFromConfig (\<lambda>path. Inr config_with_mismatch) example_interp emptyServer
            ''plug.yaml'' [] = (Some err, ?r1, [''plugins/pull'', ''plugins/badsig''])"
    by blast
  have ev: "fst (RegisterToolsFromConfig (\<lambda>path. Inr config_with_mismatch) example_interp
            emptyServer ''plug.yaml'' []) =
          Some ''handler for tool run_container does not have the correct signature''"
    by (simp add: RegisterToolsFromConfig_def config_with_mismatch_def tool_config_def
        example_interp_def)
  from t have k: "''pull_image'' \<in> fst ` set (tools ?r1)"
    by (auto simp: tool_config_def)
  show ?thesis
    using en bad out ev k by (simp add: tool_config_def)
qed

section \<open>Registering a name twice\<close>

text \<open>
  Claim C8. Two \<open>RegisterTool\<close> calls with the same name, one after the other, leave
  the registry the second call alone would have produced: the first entry leaves no
  trace. With any registrations \<open>mid\<close> between the two calls, the name afterwards maps
  to the second description, schema and handler, and a direct call of the name runs
  the second handler: the reply, the world and the registrations made are those of the
  second handler. \<open>RegisterTool\<close> has no error result, so nothing is raised.
\<close>

theorem RegisterTool_last_write_wins:
  "RegisterTool n d2 sc2 h2 (RegisterTool n d1 sc1 h1 s) = RegisterTool n d2 sc2 h2 s \<and>
   map_of (tools (RegisterTool n d2 sc2 h2 (register_all mid (RegisterTool n d1 sc1 h1 s)))) n =
     Some \<lparr>Name = n, Description = d2, InputSchema = sc2, Handler = h2, ServiceName = []\<rparr> \<and>
   CallTool (RegisterTool n d2 sc2 h2 (register_all mid (RegisterTool n d1 sc1 h1 s)))
       \<lparr>ToolName = n, Parameters = p\<rparr> w =
     (case invoke h2 p w of
        (Some err, w', regs) \<Rightarrow>
          (None, Some (errorResponse (- 32000) (''failed to execute tool '' @ n @ '': '' @ err)),
           register_all regs
             (RegisterTool n d2 sc2 h2 (register_all mid (RegisterTool n d1 sc1 h1 s))),
           w')
      | (None, w', regs) \<Rightarrow>
          (None, Some (resultResponse (Marshal_status (''Tool '' @ n @ '' executed successfully''))),
           register_all regs
             (RegisterTool n d2 sc2 h2 (register_all mid (RegisterTool n d1 sc1 h1 s))),
           w'))"
proof -
  let ?s = "RegisterTool n d2 sc2 h2 (register_all mid (RegisterTool n d1 sc1 h1 s))"
  have entry: "map_of (tools ?s) n =
     Some \<lparr>Name = n, Description = d2, InputSchema = sc2, Handler = h2, ServiceName = []\<rparr>"
    by (simp add: map_of_tools_RegisterTool)
  obtain err w' regs where i: "invoke h2 p w = (err, w', regs)"
    by (cases "invoke h2 p w") auto
  have call: "CallTool ?s \<lparr>ToolName = n, Parameters = p\<rparr> w =
     (case invoke h2 p w of
        (Some err, w', regs) \<Rightarrow>
          (None, Some (errorResponse (- 32000) (''failed to execute tool '' @ n @ '': '' @ err)),
           register_all regs ?s, w')
      | (None, w', regs) \<Rightarrow>
          (None, Some (resultResponse (Marshal_status (''Tool '' @ n @ '' executed successfully''))),
           register_all regs ?s, w'))"
    using CallTool_registered [OF entry, of p w] call_handler_eq [OF i, of ?s]
    by (cases err) (simp_all add: i)
  show ?thesis
    using RegisterTool_twice [of n d2 sc2 h2 d1 sc1 h1 s] entry call by simp
qed

theorem RegisterTool_last_write_wins_witness:
  "tools (RegisterTool ''t'' ''second'' None (logging_handler ''h2'')
       (RegisterTool ''t'' ''first'' None (logging_handler ''h1'') emptyServer)) =
     [(''t'', \<lparr>Name = ''t'', Description = ''second'', InputSchema = None,
              Handler = logging_handler ''h2'', ServiceName = []\<rparr>)] \<and>
   snd (snd (snd
     (CallTool (RegisterTool ''t'' ''second'' None (logging_handler ''h2'')
        (register_all [(''u'', ''other'', None, logging_handler ''u'')]
           (RegisterTool ''t'' ''first'' None (logging_handler ''h1'') emptyServer)))
        \<lparr>ToolName = ''t'', Parameters = None\<rparr> []))) = [''h2''] \<and>
   fst (snd
     (CallTool (RegisterTool ''t'' ''second'' None (logging_handler ''h2'')
        (register_all [(''u'', ''other'', None, logging_handler ''u'')]
           (RegisterTool ''t'' ''first'' None (logging_handler ''h1'') emptyServer)))
        \<lparr>ToolName = ''t'', Parameters = None\<rparr> [])) =
     Some (resultResponse (Marshal_status ''Tool t executed successfully''))"
  using RegisterTool_last_write_wins
    [of "''t''" "''second''" None "logging_handler ''h2''" "''first''" None
        "logging_handler ''h1''" emptyServer "[(''u'', ''other'', None, logging_handler ''u'')]"
        None "[]"]
  by (simp add: RegisterTool_def emptyServer_def logging_handler_def register_all_def)

section \<open>The prefix functions.\<close>

text \<open>
  Claim C9, as amended. Let \<open>x\<close> be an action name that is not empty and does not itself
  begin with \<open>functions.\<close>. Two plans that differ only in one step, whose action is
  \<open>functions.\<close> followed by \<open>x\<close> in the one and \<open>x\<close> in the other (with the same
  parameters), make \<open>ExecutePlan\<close> return the same error value, the same reply, the same
  server and the same world, in every registry state.
\<close>

theorem functions_prefix_equivalent:
  assumes "p \<noteq> []" and "p' \<noteq> []"
    and "unmarshal p = Inr raw" and "unmarshal p' = Inr raw'"
    and "plan_of_raw raw = Inr (pre @ a # post)" and "plan_of_raw raw' = Inr (pre @ a' # post)"
    and "map_of a ''action'' = Some (JString (''functions.'' @ x))"
    and "map_of a' ''action'' = Some (JString x)"
    and "action_parameters a' = action_parameters a"
    and "x \<noteq> []" and "\<not> HasPrefix x ''functions.''"
  shows "ExecutePlan unmarshal s p w = ExecutePlan unmarshal s p' w"
proof -
  have step: "\<And>s w. run_actions s (a # post) w = run_actions s (a' # post) w"
    using assms(7-11)
    by (intro run_actions_step_cong [where n = "''functions.'' @ x" and n' = x])
       (simp_all add: strip_functions_prefixed strip_functions_plain del: append.simps)
  have "run_actions s (pre @ a # post) w = run_actions s (pre @ a' # post) w"
    by (simp only: run_actions_append_cases [of s pre] step)
  then show ?thesis
    using assms(1-6)
    by (simp add: ExecutePlan_runs [where unmarshal = unmarshal and p = p and raw = raw
          and plan = "pre @ a # post"]
        ExecutePlan_runs [where unmarshal = unmarshal and p = p' and raw = raw'
          and plan = "pre @ a' # post"])
qed

theorem functions_prefix_equivalent_witness:
  "ExecutePlan (table_unmarshal prefix_docs) example_server plan_functions_pull [] =
     ExecutePlan (table_unmarshal prefix_docs) example_server plan_pull [] \<and>
   ExecutePlan (table_unmarshal prefix_docs) example_server plan_pull [] =
     (None, Some (resultResponse (Marshal_status ''Plan executed successfully'')),
      example_server, [''pull_image''])"
proof -
  have docs:
    "table_unmarshal prefix_docs plan_functions_pull =
       Inr (JArray [JObject [(''action'', JString ''functions.pull_image'')]])"
    "table_unmarshal prefix_docs plan_pull =
       Inr (JArray [JObject [(''action'', JString ''pull_image'')]])"
    by (simp_all add: table_unmarshal_def prefix_docs_def plan_pull_def plan_functions_pull_def)
  have ne: "plan_functions_pull \<noteq> []" "plan_pull \<noteq> []"
    by (simp_all add: plan_pull_def plan_functions_pull_def)
  have pl:
    "plan_of_raw (JArray [JObject [(''action'', JString ''functions.pull_image'')]]) =
       Inr ([] @ [(''action'', JString ''functions.pull_image'')] # [])"
    "plan_of_raw (JArray [JObject [(''action'', JString ''pull_image'')]]) =
       Inr ([] @ [(''action'', JString ''pull_image'')] # [])"
    by simp_all
  have acts:
    "map_of [(''action'', JString ''functions.pull_image'')] ''action'' =
       Some (JString (''functions.'' @ ''pull_image''))"
    "map_of [(''action'', JString ''pull_image'')] ''action'' = Some (JString ''pull_image'')"
    "action_parameters [(''action'', JString ''pull_image'')] =
       action_parameters [(''action'', JString ''functions.pull_image'')]"
    "''pull_image'' \<noteq> []" "\<not> HasPrefix ''pull_image'' ''functions.''"
    by (simp_all add: action_parameters_def)
  have run: "ExecutePlan (table_unmarshal prefix_docs) example_server plan_pull [] =
     (None, Some (resultResponse (Marshal_status ''Plan executed successfully'')),
      example_server, [''pull_image''])"
    by (simp add: ExecutePlan_def docs ne example_server_def RegisterTool_def emptyServer_def
        strip_functions_def logging_handler_def action_parameters_def call_handler_def
        register_all_def)
  show ?thesis
    using functions_prefix_equivalent
        [where unmarshal = "table_unmarshal prefix_docs" and p = plan_functions_pull
           and p' = plan_pull and pre = "[]" and post = "[]"
           and a = "[(''action'', JString ''functions.pull_image'')]"
           and a' = "[(''action'', JString ''pull_image'')]" and x = "''pull_image''"
           and s = example_server and w = "[]",
         OF ne docs pl acts]
      run
    by simp
qed

text \<open>
  As stated, for every action name, the claim fails in two ways. The prefix is stripped
  once: \<open>functions.functions.pull_image\<close> is looked up as \<open>functions.pull_image\<close>, which
  is not registered, while \<open>functions.pull_image\<close> runs \<open>pull_image\<close>. And the bare
  prefix \<open>functions.\<close> passes the test for an empty action and is looked up as the empty
  name, while the empty action is rejected as an invalid format.
\<close>

theorem functions_prefix_counterexample:
  "ExecutePlan (table_unmarshal prefix_docs) example_server plan_functions_functions_pull [] =
     (None, Some (errorResponse (- 32601) ''unknown action: functions.pull_image''),
      example_server, []) \<and>
   ExecutePlan (table_unmarshal prefix_docs) example_server plan_functions_pull [] =
     (None, Some (resultResponse (Marshal_status ''Plan executed successfully'')),
      example_server, [''pull_image'']) \<and>
   ExecutePlan (table_unmarshal prefix_docs) example_server plan_functions_only [] =
     (None, Some (errorResponse (- 32601) ''unknown action: ''), example_server, []) \<and>
   ExecutePlan (table_unmarshal prefix_docs) example_server plan_empty_action [] =
     (None, Some (errorResponse (- 32602) ''invalid action format''), example_server, [])"
proof -
  have docs:
    "table_unmarshal prefix_docs plan_functions_functions_pull =
       Inr (JArray [JObject [(''action'', JString ''functions.functions.pull_image'')]])"
    "table_unmarshal prefix_docs plan_functions_pull =
       Inr (JArray [JObject [(''action'', JString ''functions.pull_image'')]])"
    "table_unmarshal prefix_docs plan_functions_only =
       Inr (JArray [JObject [(''action'', JString ''functions.'')]])"
    "table_unmarshal prefix_docs plan_empty_action =
       Inr (JArray [JObject [(''action'', JString [])]])"
    by (simp_all add: table_unmarshal_def prefix_docs_def plan_pull_def plan_functions_pull_def
        plan_functions_functions_pull_def plan_functions_only_def plan_empty_action_def)
  have ne: "plan_functions_functions_pull \<noteq> []" "plan_functions_pull \<noteq> []"
    "plan_functions_only \<noteq> []" "plan_empty_action \<noteq> []"
    by (simp_all add: plan_functions_pull_def
        plan_functions_functions_pull_def plan_functions_only_def plan_empty_action_def)
  show ?thesis
    by (simp add: ExecutePlan_def docs ne example_server_def RegisterTool_def emptyServer_def
        strip_functions_def TrimPrefix_def logging_handler_def action_parameters_def NewError_def
        call_handler_def register_all_def)
qed

section \<open>Tools registered through RegisterTool carry no service name\<close>

text \<open>
  Claim C10. \<open>RegisterTool\<close> stores its entry with the empty \<open>ServiceName\<close>. Hence in
  a registry built by \<open>RegisterTool\<close> calls alone every entry has the empty service name,
  and \<open>listToolsForService\<close> returns the nil slice for every non-empty query, and the
  full tool list for the empty query; a query lower-cases to the empty string only if
  it is empty.
\<close>

theorem RegisterTool_empty_ServiceName:
  "(\<forall>t. map_of (tools (RegisterTool n d sc h s)) n = Some t \<longrightarrow> ServiceName t = []) \<and>
   (\<forall>t \<in> snd ` set (tools (register_all regs (emptyServer :: 'w Server))). ServiceName t = []) \<and>
   listToolsForService caseTable (register_all regs (emptyServer :: 'w Server)) q =
     (if q = [] then listTools (register_all regs emptyServer) else NilSlice) \<and>
   (ToLower caseTable q = [] \<longleftrightarrow> q = [])"
proof -
  have u: "\<forall>t \<in> snd ` set (tools (register_all regs (emptyServer :: 'w Server))). ServiceName t = []"
    by (rule unlabelled_register_all) (simp add: emptyServer_def)
  show ?thesis
    using u listToolsForService_unlabelled [OF u]
    by (simp add: map_of_tools_RegisterTool ToLower_Nil_iff)
qed

theorem RegisterTool_empty_ServiceName_witness:
  "listToolsForService diaeresis_table
     (register_all [(''pull_image'', ''Pull an image'', None, logging_handler ''pull_image'')]
        emptyServer) ''docker'' = NilSlice \<and>
   listToolsForService diaeresis_table
     (register_all [(''pull_image'', ''Pull an image'', None, logging_handler ''pull_image'')]
        emptyServer) [] = Slice [''pull_image: Pull an image'']"
  using RegisterTool_empty_ServiceName
    [where n = "''pull_image''" and d = "''Pull an image''" and sc = None
       and h = "logging_handler ''pull_image''" and s = emptyServer
       and regs = "[(''pull_image'', ''Pull an image'', None, logging_handler ''pull_image'')]"
       and q = "''docker''" and caseTable = diaeresis_table]
   RegisterTool_empty_ServiceName
    [where n = "''pull_image''" and d = "''Pull an image''" and sc = None
       and h = "logging_handler ''pull_image''" and s = emptyServer
       and regs = "[(''pull_image'', ''Pull an image'', None, logging_handler ''pull_image'')]"
       and q = "[]" and caseTable = diaeresis_table]
  by (simp add: register_all_def RegisterTool_def emptyServer_def listTools_def describe_tool_def)

end
